theory Spec2Isabelle
  imports Main "HOL-Library.Product_Lexorder" "HOL-Library.Multiset"
begin

section \<open>Python values, exceptions and the world the program runs in\<close>

text \<open>
  The chat application is four Python modules: \<^verbatim>\<open>database.py\<close> (PostgreSQL through
  psycopg2), \<^verbatim>\<open>prompt_loader.py\<close> (a Mustache template rendered by pystache),
  \<^verbatim>\<open>chat_service.py\<close> (the Anthropic streaming client) and \<^verbatim>\<open>main.py\<close> (the Gradio
  callbacks). Every function is embedded as a state transformer over a record \<open>world\<close>
  that returns either the exception it raised or its value.

  Strings are \<open>string\<close>; one \<open>char\<close> stands for one code point below 256. Console
  output (\<^verbatim>\<open>print\<close>) is not part of the model.
\<close>

datatype exn =
    ValueError string
  | FileNotFoundError string
  | IndexError string
  | Exception string

text \<open>\<^verbatim>\<open>str(e)\<close>\<close>

fun str_exn :: "exn \<Rightarrow> string" where
  "str_exn (ValueError m) = m"
| "str_exn (FileNotFoundError m) = m"
| "str_exn (IndexError m) = m"
| "str_exn (Exception m) = m"

text \<open>
  A row of table \<^verbatim>\<open>chats\<close>, in the column order of the \<^verbatim>\<open>SELECT\<close> of
  \<^verbatim>\<open>get_session_history\<close>: \<^verbatim>\<open>(id, timestamp, session_uuid, message_type, contents, created_at)\<close>.
  Points in time are integers (microseconds).
\<close>

record chat_row =
  row_id :: nat
  row_timestamp :: int
  row_session_uuid :: string
  row_message_type :: string
  row_contents :: string
  row_created_at :: int

text \<open>A row of table \<^verbatim>\<open>documents\<close>; \<^verbatim>\<open>resume\<close> and \<^verbatim>\<open>jd\<close> may be \<^verbatim>\<open>NULL\<close>.\<close>

record document_row =
  doc_name :: string
  doc_resume :: "string option"
  doc_jd :: "string option"

text \<open>A message in the format of the Anthropic API: \<^verbatim>\<open>{"role": ..., "content": ...}\<close>.\<close>

record api_message =
  role :: string
  content :: string

text \<open>
  The Gradio transcript \<^verbatim>\<open>[[user_msg, bot_msg], ...]\<close>; the second slot is \<^verbatim>\<open>None\<close> until
  the reply starts.
\<close>

type_synonym transcript = "(string \<times> string option) list"

text \<open>
  What an observer of one run sees, in order: each call of the two conversation-store
  operations with its arguments and the value it returned, the opening of the model stream
  with the messages and the system prompt it is given, and each value the generator
  \<^verbatim>\<open>chat_function\<close> yields.
\<close>

datatype event =
    SaveCall string string string "int option" bool
  | LoadCall string "chat_row list option"
  | StreamCall "api_message list" string
  | Emit transcript string

text \<open>
  The world: the module globals (\<^verbatim>\<open>connection_pool\<close>, \<^verbatim>\<open>client\<close>, \<^verbatim>\<open>_template_cache\<close>,
  \<^verbatim>\<open>app_initialized\<close>, \<^verbatim>\<open>initialization_error\<close>; for the first two only whether they are
  \<^verbatim>\<open>None\<close>), the process environment, the file system, the two tables, and the external
  collaborators whose behaviour the program does not decide:
  \<^item> \<open>pystache_render\<close>: what \<^verbatim>\<open>pystache.render(template, context)\<close> returns or raises;
  \<^item> \<open>anthropic_stream\<close>: the text chunks the remote model sends for a request, and the
    error that ends the stream, if any;
  \<^item> \<open>driver_faults\<close>: for each coming call into psycopg2, the exception it raises, if any
    (an exhausted list means no further failure);
  \<^item> \<open>clock\<close>, \<open>uuids\<close>: the successive results of \<^verbatim>\<open>datetime.now()\<close> and \<^verbatim>\<open>uuid.uuid4()\<close>;
  \<^item> \<open>db_clock\<close>: the value the database gives \<^verbatim>\<open>created_at\<close> for the row with a given id.
  \<open>events\<close> is the observation log; no operation reads it.
\<close>

record world =
  environ :: "string \<Rightarrow> string option"
  connection_pool :: bool
  client :: bool
  template_cache :: "string option"
  app_initialized :: bool
  initialization_error :: "string option"
  files :: "string \<Rightarrow> exn + string"
  pystache_render :: "string \<Rightarrow> (string \<times> string) list \<Rightarrow> exn + string"
  anthropic_stream :: "api_message list \<Rightarrow> string \<Rightarrow> string list \<times> exn option"
  chats :: "chat_row list"
  documents :: "document_row list"
  next_chat_id :: nat
  db_clock :: "nat \<Rightarrow> int"
  driver_faults :: "exn option list"
  clock :: "nat \<Rightarrow> int"
  clock_reads :: nat
  uuids :: "nat \<Rightarrow> string"
  uuid_draws :: nat
  events :: "event list"

subsection \<open>Control flow: sequencing, \<^verbatim>\<open>raise\<close>, \<^verbatim>\<open>try/except\<close>, \<^verbatim>\<open>try/finally\<close>\<close>

type_synonym 'a py = "world \<Rightarrow> (exn + 'a) \<times> world"

definition py_return :: "'a \<Rightarrow> 'a py" where
  "py_return x = (\<lambda>w. (Inr x, w))"

definition py_raise :: "exn \<Rightarrow> 'a py" where
  "py_raise e = (\<lambda>w. (Inl e, w))"

definition py_bind :: "'a py \<Rightarrow> ('a \<Rightarrow> 'b py) \<Rightarrow> 'b py" where
  "py_bind m f = (\<lambda>w. case m w of (Inl e, w') \<Rightarrow> (Inl e, w') | (Inr x, w') \<Rightarrow> f x w')"

text \<open>\<^verbatim>\<open>try: m  except Exception as e: h e\<close>\<close>

definition try_except :: "'a py \<Rightarrow> (exn \<Rightarrow> 'a py) \<Rightarrow> 'a py" where
  "try_except m h = (\<lambda>w. case m w of (Inl e, w') \<Rightarrow> h e w' | (Inr x, w') \<Rightarrow> (Inr x, w'))"

text \<open>
  \<^verbatim>\<open>try: m  finally: fin\<close>: the finaliser runs however \<open>m\<close> ends; an exception of the
  finaliser replaces the outcome of \<open>m\<close>, also a pending \<^verbatim>\<open>return\<close>.
\<close>

definition try_finally :: "'a py \<Rightarrow> unit py \<Rightarrow> 'a py" where
  "try_finally m fin =
     (\<lambda>w. case m w of (r, w') \<Rightarrow>
        (case fin w' of (Inl e, w'') \<Rightarrow> (Inl e, w'') | (Inr _, w'') \<Rightarrow> (r, w'')))"

definition py_get :: "(world \<Rightarrow> 'a) \<Rightarrow> 'a py" where
  "py_get f = (\<lambda>w. (Inr (f w), w))"

definition py_modify :: "(world \<Rightarrow> world) \<Rightarrow> unit py" where
  "py_modify f = (\<lambda>w. (Inr (), f w))"

definition observe :: "event \<Rightarrow> unit py" where
  "observe ev = py_modify (\<lambda>w. w\<lparr>events := events w @ [ev]\<rparr>)"

subsection \<open>Built-ins\<close>

text \<open>
  \<^verbatim>\<open>str.isspace\<close> for one character below 256: TAB, LF, VT, FF, CR, the separators
  FS, GS, RS, US, the space, NEL and the no-break space.
\<close>

definition isspace :: "char \<Rightarrow> bool" where
  "isspace c = (of_char c \<in> set [9, 10, 11, 12, 13, 28, 29, 30, 31, 32, 133, 160 :: nat])"

text \<open>\<^verbatim>\<open>s.strip()\<close>\<close>

definition strip :: "string \<Rightarrow> string" where
  "strip s = rev (dropWhile isspace (rev (dropWhile isspace s)))"

text \<open>\<^verbatim>\<open>sep.join(xs)\<close>\<close>

fun join :: "string \<Rightarrow> string list \<Rightarrow> string" where
  "join sep [] = []"
| "join sep [x] = x"
| "join sep (x # y # ys) = x @ sep @ join sep (y # ys)"

text \<open>\<^verbatim>\<open>os.getenv(name)\<close> is falsy when the variable is unset or empty.\<close>

definition getenv_truthy :: "world \<Rightarrow> string \<Rightarrow> bool" where
  "getenv_truthy w name = (case environ w name of None \<Rightarrow> False | Some v \<Rightarrow> v \<noteq> [])"

text \<open>\<^verbatim>\<open>os.getenv(name, default)\<close>\<close>

definition getenv_default :: "world \<Rightarrow> string \<Rightarrow> string \<Rightarrow> string" where
  "getenv_default w name dflt = (case environ w name of None \<Rightarrow> dflt | Some v \<Rightarrow> v)"

text \<open>\<^verbatim>\<open>datetime.now()\<close>\<close>

definition datetime_now :: "int py" where
  "datetime_now = (\<lambda>w. (Inr (clock w (clock_reads w)), w\<lparr>clock_reads := Suc (clock_reads w)\<rparr>))"

text \<open>\<^verbatim>\<open>str(uuid.uuid4())\<close>\<close>

definition uuid4 :: "string py" where
  "uuid4 = (\<lambda>w. (Inr (uuids w (uuid_draws w)), w\<lparr>uuid_draws := Suc (uuid_draws w)\<rparr>))"

section \<open>\<^verbatim>\<open>database.py\<close>\<close>

subsection \<open>The psycopg2 driver\<close>

text \<open>
  Every call into the driver first consults the fault plan: it raises the exception
  planned for it, or goes on.
\<close>

definition driver_call :: "unit py" where
  "driver_call = (\<lambda>w. case driver_faults w of
       [] \<Rightarrow> (Inr (), w)
     | None # fs \<Rightarrow> (Inr (), w\<lparr>driver_faults := fs\<rparr>)
     | Some e # fs \<Rightarrow> (Inl e, w\<lparr>driver_faults := fs\<rparr>))"

text \<open>\<^verbatim>\<open>pool.SimpleConnectionPool(minconn=1, maxconn=3, ...)\<close>\<close>

definition SimpleConnectionPool :: "unit py" where
  "SimpleConnectionPool = driver_call"

text \<open>\<^verbatim>\<open>pool_instance.getconn()\<close>, \<^verbatim>\<open>conn.cursor()\<close>, \<^verbatim>\<open>cursor.close()\<close>, \<^verbatim>\<open>pool_instance.putconn(conn)\<close>\<close>

definition pool_getconn :: "unit py" where
  "pool_getconn = driver_call"

definition conn_cursor :: "unit py" where
  "conn_cursor = driver_call"

definition cursor_close :: "unit py" where
  "cursor_close = driver_call"

text \<open>
  Returning a connection to the pool rolls back whatever its transaction has not
  committed; the model keeps uncommitted rows out of the world (see \<open>cursor_execute_insert\<close>),
  so nothing is left to undo.
\<close>

definition pool_putconn :: "unit py" where
  "pool_putconn = driver_call"

text \<open>
  \<^verbatim>\<open>cursor.execute("INSERT INTO chats (session_uuid, message_type, contents, timestamp) VALUES (%s, %s, %s, %s)", ...)\<close>.
  The new row belongs to the open transaction until \<^verbatim>\<open>conn.commit()\<close>: the model hands
  it from \<open>cursor_execute_insert\<close> to \<open>conn_commit\<close> as a value.

  Modelled from the spec: the table definition is not among the sources; per the data
  model, \<^verbatim>\<open>id\<close> is assigned by the store (here from the sequence \<open>next_chat_id\<close>) and
  \<^verbatim>\<open>created_at\<close> is store-assigned (here \<open>db_clock\<close> at that id).
\<close>

definition cursor_execute_insert :: "string \<Rightarrow> string \<Rightarrow> string \<Rightarrow> int \<Rightarrow> chat_row py" where
  "cursor_execute_insert session_uuid message_type contents timestamp =
     py_bind driver_call (\<lambda>_. (\<lambda>w.
       (Inr \<lparr>row_id = next_chat_id w, row_timestamp = timestamp,
             row_session_uuid = session_uuid, row_message_type = message_type,
             row_contents = contents, row_created_at = db_clock w (next_chat_id w)\<rparr>,
        w\<lparr>next_chat_id := Suc (next_chat_id w)\<rparr>)))"

text \<open>\<^verbatim>\<open>conn.commit()\<close> makes the row of the transaction durable.\<close>

definition conn_commit :: "chat_row \<Rightarrow> unit py" where
  "conn_commit pending =
     py_bind driver_call (\<lambda>_. py_modify (\<lambda>w. w\<lparr>chats := chats w @ [pending]\<rparr>))"

text \<open>
  \<^verbatim>\<open>SELECT id, timestamp, session_uuid, message_type, contents, created_at FROM chats
  WHERE session_uuid = %s ORDER BY timestamp ASC, created_at ASC\<close>
\<close>

definition order_key :: "chat_row \<Rightarrow> int \<times> int" where
  "order_key r = (row_timestamp r, row_created_at r)"

definition cursor_execute_select_chats :: "string \<Rightarrow> chat_row list py" where
  "cursor_execute_select_chats session_uuid =
     py_bind driver_call (\<lambda>_. py_get (\<lambda>w.
       sort_key order_key (filter (\<lambda>r. row_session_uuid r = session_uuid) (chats w))))"

text \<open>\<^verbatim>\<open>cursor.fetchall()\<close>\<close>

definition cursor_fetchall :: "'a list \<Rightarrow> 'a list py" where
  "cursor_fetchall result_set = py_bind driver_call (\<lambda>_. py_return result_set)"

text \<open>\<^verbatim>\<open>SELECT resume, jd FROM documents WHERE name = %s\<close>\<close>

definition cursor_execute_select_document :: "string \<Rightarrow> (string option \<times> string option) list py" where
  "cursor_execute_select_document name =
     py_bind driver_call (\<lambda>_. py_get (\<lambda>w.
       map (\<lambda>d. (doc_resume d, doc_jd d)) (filter (\<lambda>d. doc_name d = name) (documents w))))"

text \<open>\<^verbatim>\<open>cursor.fetchone()\<close>: the first row of the result, or \<^verbatim>\<open>None\<close>.\<close>

definition cursor_fetchone :: "'a list \<Rightarrow> 'a option py" where
  "cursor_fetchone result_set =
     py_bind driver_call (\<lambda>_. py_return (case result_set of [] \<Rightarrow> None | r # _ \<Rightarrow> Some r))"

subsection \<open>The module's functions\<close>

definition required_vars :: "string list" where
  "required_vars =
     [''DATABASE_HOST'', ''DATABASE_PORT'', ''DATABASE_NAME'', ''DATABASE_USER'', ''DATABASE_PASSWORD'']"

definition get_connection_pool :: "unit py" where
  "get_connection_pool = (\<lambda>w.
     if connection_pool w then py_return () w
     else
       let missing_vars = filter (\<lambda>var. \<not> getenv_truthy w var) required_vars in
       if missing_vars \<noteq> [] then
         py_raise (ValueError (''Missing required environment variables: '' @ join '', '' missing_vars)) w
       else
         try_except
           (py_bind SimpleConnectionPool (\<lambda>_.
            py_modify (\<lambda>w. w\<lparr>connection_pool := True\<rparr>)))
           (\<lambda>e. py_raise e) w)"

text \<open>The \<^verbatim>\<open>try\<close> block of \<^verbatim>\<open>save_message\<close>.\<close>

definition save_message_try :: "string \<Rightarrow> string \<Rightarrow> string \<Rightarrow> int \<Rightarrow> bool py" where
  "save_message_try session_uuid message_type contents timestamp =
     py_bind get_connection_pool (\<lambda>_.
     py_bind pool_getconn (\<lambda>_.
     try_finally
       (py_bind conn_cursor (\<lambda>_.
        py_bind (cursor_execute_insert session_uuid message_type contents timestamp) (\<lambda>pending.
        py_bind (conn_commit pending) (\<lambda>_.
        py_bind cursor_close (\<lambda>_.
        py_return True)))))
       pool_putconn))"

definition save_message :: "string \<Rightarrow> string \<Rightarrow> string \<Rightarrow> int option \<Rightarrow> bool py" where
  "save_message session_uuid message_type contents timestamp =
     py_bind (case timestamp of None \<Rightarrow> datetime_now | Some t \<Rightarrow> py_return t) (\<lambda>timestamp'.
     py_bind
       (try_except
          (save_message_try session_uuid message_type contents timestamp')
          (\<lambda>e. py_return False)) (\<lambda>returned.
     py_bind (observe (SaveCall session_uuid message_type contents timestamp returned)) (\<lambda>_.
     py_return returned)))"

text \<open>The \<^verbatim>\<open>try\<close> block of \<^verbatim>\<open>get_session_history\<close>.\<close>

definition get_session_history_try :: "string \<Rightarrow> chat_row list option py" where
  "get_session_history_try session_uuid =
     py_bind get_connection_pool (\<lambda>_.
     py_bind pool_getconn (\<lambda>_.
     try_finally
       (py_bind conn_cursor (\<lambda>_.
        py_bind (cursor_execute_select_chats session_uuid) (\<lambda>result_set.
        py_bind (cursor_fetchall result_set) (\<lambda>messages.
        py_bind cursor_close (\<lambda>_.
        py_return (Some messages))))))
       pool_putconn))"

definition get_session_history :: "string \<Rightarrow> chat_row list option py" where
  "get_session_history session_uuid =
     py_bind
       (try_except
          (get_session_history_try session_uuid)
          (\<lambda>e. py_return None)) (\<lambda>returned.
     py_bind (observe (LoadCall session_uuid returned)) (\<lambda>_.
     py_return returned))"

text \<open>The \<^verbatim>\<open>try\<close> block of \<^verbatim>\<open>get_document_by_name\<close>.\<close>

definition get_document_by_name_try :: "string \<Rightarrow> (string option \<times> string option) option py" where
  "get_document_by_name_try name =
     py_bind get_connection_pool (\<lambda>_.
     py_bind pool_getconn (\<lambda>_.
     try_finally
       (py_bind conn_cursor (\<lambda>_.
        py_bind (cursor_execute_select_document name) (\<lambda>result_set.
        py_bind (cursor_fetchone result_set) (\<lambda>result.
        py_bind cursor_close (\<lambda>_.
        (case result of Some r \<Rightarrow> py_return (Some r) | None \<Rightarrow> py_return None))))))
       pool_putconn))"

definition get_document_by_name :: "string \<Rightarrow> (string option \<times> string option) option py" where
  "get_document_by_name name =
     try_except (get_document_by_name_try name) (\<lambda>e. py_return None)"

section \<open>\<^verbatim>\<open>prompt_loader.py\<close>\<close>

text \<open>
  \<^verbatim>\<open>with open(abs_path, 'r', encoding='utf-8') as f: f.read()\<close>; the file system \<open>files\<close>
  resolves the path and answers with the text or with the exception of the failed read.
\<close>

definition open_read :: "string \<Rightarrow> string py" where
  "open_read path = (\<lambda>w. (files w path, w))"

definition default_template_path :: string where
  "default_template_path = ''prompts/chat_system.mustache''"

definition load_template :: "string \<Rightarrow> string option py" where
  "load_template template_path =
     py_bind (py_get template_cache) (\<lambda>cached.
     case cached of
       Some t \<Rightarrow> py_return (Some t)
     | None \<Rightarrow>
         try_except
           (py_bind (open_read template_path) (\<lambda>text.
            py_bind (py_modify (\<lambda>w. w\<lparr>template_cache := Some text\<rparr>)) (\<lambda>_.
            py_return (Some text))))
           (\<lambda>e. case e of FileNotFoundError _ \<Rightarrow> py_return None | _ \<Rightarrow> py_return None))"

text \<open>\<^verbatim>\<open>pystache.render(template, context)\<close>\<close>

definition pystache_render_call :: "string \<Rightarrow> (string \<times> string) list \<Rightarrow> string py" where
  "pystache_render_call template context = (\<lambda>w. (pystache_render w template context, w))"

text \<open>The hardcoded prompt of the \<^verbatim>\<open>except\<close> clause of \<^verbatim>\<open>render_prompt\<close>.\<close>

definition fallback_prompt :: "string \<Rightarrow> string \<Rightarrow> string" where
  "fallback_prompt resume jd =
     ''You are a helpful career advisor assistant reviewing a resume against a job description.\<newline>\<newline>RESUME:\<newline>''
     @ resume @ ''\<newline>\<newline>JOB DESCRIPTION:\<newline>'' @ jd @
     ''\<newline>\<newline>Please provide thoughtful, specific feedback to help the hiring manager evaluate fit for this position.''"

definition render_prompt :: "string \<Rightarrow> string \<Rightarrow> string \<Rightarrow> string option \<Rightarrow> string py" where
  "render_prompt template resume jd email =
     try_except
       (py_bind (case email of
                   None \<Rightarrow> py_get (\<lambda>w. getenv_default w ''APPLICANT_EMAIL'' [])
                 | Some a \<Rightarrow> py_return a) (\<lambda>email'.
        let context = [(''resume'', resume), (''jd'', jd), (''email'', email')] in
        py_bind (pystache_render_call template context) (\<lambda>rendered.
        py_return rendered)))
       (\<lambda>e. py_return (fallback_prompt resume jd))"

definition get_system_prompt :: "string \<Rightarrow> string \<Rightarrow> string \<Rightarrow> string option py" where
  "get_system_prompt resume jd template_path =
     py_bind (load_template template_path) (\<lambda>template.
     case template of
       None \<Rightarrow> py_return None
     | Some t \<Rightarrow> py_bind (render_prompt t resume jd None) (\<lambda>p. py_return (Some p)))"

section \<open>\<^verbatim>\<open>chat_service.py\<close>\<close>

text \<open>
  \<^verbatim>\<open>initialize_client\<close>; the constructor \<^verbatim>\<open>Anthropic(api_key=...)\<close> only stores the key
  and is taken not to raise.
\<close>

definition initialize_client :: "unit py" where
  "initialize_client =
     py_bind (py_get (\<lambda>w. getenv_truthy w ''ANTHROPIC_API_KEY'')) (\<lambda>api_key.
     if \<not> api_key then py_raise (ValueError ''ANTHROPIC_API_KEY environment variable not set'')
     else py_modify (\<lambda>w. w\<lparr>client := True\<rparr>))"

fun format_message_history :: "chat_row list \<Rightarrow> api_message list" where
  "format_message_history [] = []"
| "format_message_history (msg # db_messages) =
     (let message_type = row_message_type msg; contents = row_contents msg in
      if message_type = ''system'' then format_message_history db_messages
      else if message_type \<in> set [''user'', ''assistant'']
        then \<lparr>role = message_type, content = contents\<rparr> # format_message_history db_messages
      else format_message_history db_messages)"

text \<open>
  The generator \<^verbatim>\<open>stream_message\<close>, run to its end: the list of the chunks it yields
  and the value it returns. The remote service sends \<open>texts\<close> and then either closes the
  stream or fails with \<open>failure\<close>; the \<^verbatim>\<open>except\<close> clause turns the failure into one more
  chunk.
\<close>

definition stream_message :: "api_message list \<Rightarrow> string \<Rightarrow> (string list \<times> string) py" where
  "stream_message messages system_prompt =
     py_bind (py_get client) (\<lambda>initialised.
     py_bind (if \<not> initialised then initialize_client else py_return ()) (\<lambda>_.
     py_bind (observe (StreamCall messages system_prompt)) (\<lambda>_.
     py_bind (py_get (\<lambda>w. anthropic_stream w messages system_prompt)) (\<lambda>(texts, failure).
     let full_response = concat texts in
     case failure of
       None \<Rightarrow> py_return (texts, full_response)
     | Some e \<Rightarrow>
         let error_msg = ''Error during streaming: '' @ str_exn e in
         py_return (texts @ [error_msg], error_msg)))))"

section \<open>\<^verbatim>\<open>main.py\<close>\<close>

text \<open>\<^verbatim>\<open>x or ""\<close>\<close>

definition or_empty :: "string option \<Rightarrow> string" where
  "or_empty x = (case x of None \<Rightarrow> [] | Some v \<Rightarrow> v)"

text \<open>
  \<^verbatim>\<open>load_document_on_startup\<close>; the request is represented by its query parameter \<^verbatim>\<open>q\<close>
  (\<open>None\<close> when absent). The result is
  \<^verbatim>\<open>(error_message, q_value, session_uuid, chat_enabled, resume, jd)\<close>.
\<close>

definition load_document_on_startup ::
    "string option \<Rightarrow> (string \<times> string \<times> string \<times> bool \<times> string \<times> string) py" where
  "load_document_on_startup q =
     py_bind (py_get app_initialized) (\<lambda>initialized.
     if \<not> initialized then
       py_bind (py_get initialization_error) (\<lambda>err.
       py_bind uuid4 (\<lambda>u.
       py_return (''**Error:** '' @ (case err of None \<Rightarrow> ''None'' | Some m \<Rightarrow> m),
                  [], u, False, [], [])))
     else
       let q_param = strip (case q of None \<Rightarrow> [] | Some v \<Rightarrow> v) in
       if q_param = [] then
         py_bind uuid4 (\<lambda>u.
         py_return (''**Error:** 'q' parameter must be specified in the URL'',
                    [], u, False, [], []))
       else
         py_bind uuid4 (\<lambda>session_uuid.
         try_except
           (py_bind (get_document_by_name q_param) (\<lambda>result.
            case result of
              None \<Rightarrow>
                py_return (''**Error:** No document found with name '' @ [CHR 0x27] @ q_param
                             @ [CHR 0x27],
                           q_param, session_uuid, False, [], [])
            | Some (resume, jd) \<Rightarrow>
                py_return ([], q_param, session_uuid, True, or_empty resume, or_empty jd)))
           (\<lambda>e.
              py_return (''**Error:** Database error while retrieving document: '' @ str_exn e,
                         q_param, session_uuid, False, [], []))))"

text \<open>\<^verbatim>\<open>yield history, ""\<close>\<close>

definition py_yield :: "transcript \<Rightarrow> string \<Rightarrow> unit py" where
  "py_yield history cleared = observe (Emit history cleared)"

text \<open>
  The loop \<^verbatim>\<open>for chunk in stream_generator\<close> of \<^verbatim>\<open>chat_function\<close>, with the assignment
  \<^verbatim>\<open>history[-1][1] = full_response\<close>, which raises on an empty list. A yielded transcript
  is recorded with the content it has when it is yielded.
\<close>

fun chat_function_loop :: "string list \<Rightarrow> string \<Rightarrow> transcript \<Rightarrow> (string \<times> transcript) py" where
  "chat_function_loop [] full_response history = py_return (full_response, history)"
| "chat_function_loop (chunk # chunks) full_response history =
     (let full_response' = full_response @ chunk in
      if history = [] then py_raise (IndexError ''list index out of range'')
      else
        let history' = history[length history - 1 :=
                                 (fst (history ! (length history - 1)), Some full_response')] in
        py_bind (py_yield history' []) (\<lambda>_.
        chat_function_loop chunks full_response' history'))"

text \<open>
  \<^verbatim>\<open>chat_function\<close> is a generator. The model runs it to its end, as the interface
  does: each \<^verbatim>\<open>yield\<close> is an \<open>Emit\<close> event, and the result is the value of its
  \<^verbatim>\<open>return\<close> or the exception that ends it.
\<close>

definition chat_function ::
    "string \<Rightarrow> transcript \<Rightarrow> string \<Rightarrow> string \<Rightarrow> string \<Rightarrow> (transcript \<times> string) py" where
  "chat_function message history session_uuid resume jd =
     (if strip message = [] then py_return (history, [])
      else
        py_bind datetime_now (\<lambda>timestamp.
        py_bind (save_message session_uuid ''user'' message (Some timestamp)) (\<lambda>_.
        py_bind (get_session_history session_uuid) (\<lambda>db_messages.
        let api_messages =
              format_message_history (case db_messages of None \<Rightarrow> [] | Some ms \<Rightarrow> ms) in
        py_bind (get_system_prompt resume jd default_template_path) (\<lambda>loaded.
        py_bind (case loaded of
                   None \<Rightarrow> render_prompt [] resume jd None
                 | Some p \<Rightarrow> py_return p) (\<lambda>system_prompt.
        let history1 = history @ [(message, None)] in
        py_bind (py_yield history1 []) (\<lambda>_.
        py_bind (stream_message api_messages system_prompt) (\<lambda>(chunks, _).
        py_bind (chat_function_loop chunks [] history1) (\<lambda>(full_response, history2).
        py_bind datetime_now (\<lambda>now.
        py_bind (save_message session_uuid ''assistant'' full_response (Some now)) (\<lambda>_.
        py_return (history2, []))))))))))))"

section \<open>Notions used in the statements\<close>

subsection \<open>The state of the store\<close>

text \<open>
  The pool exists already, or every variable \<^verbatim>\<open>get_connection_pool\<close> requires is set.
\<close>

definition pool_available :: "world \<Rightarrow> bool" where
  "pool_available w = (connection_pool w \<or> (\<forall>var \<in> set required_vars. getenv_truthy w var))"

text \<open>None of the next \<open>n\<close> calls into the driver is planned to fail.\<close>

definition calls_clean :: "nat \<Rightarrow> world \<Rightarrow> bool" where
  "calls_clean n w = (\<forall>f \<in> set (take n (driver_faults w)). f = None)"

text \<open>
  The store serves the next operation without any failure. Each of \<^verbatim>\<open>save_message\<close>,
  \<^verbatim>\<open>get_session_history\<close> and \<^verbatim>\<open>get_document_by_name\<close> makes six calls into the driver
  (\<^verbatim>\<open>getconn\<close>, \<^verbatim>\<open>cursor\<close>, \<^verbatim>\<open>execute\<close>, \<^verbatim>\<open>commit\<close> or a fetch, \<^verbatim>\<open>close\<close>, \<^verbatim>\<open>putconn\<close>), after
  one more that creates the pool when there is none yet.
\<close>

definition store_up :: "world \<Rightarrow> bool" where
  "store_up w = (pool_available w \<and> calls_clean (if connection_pool w then 6 else 7) w)"


text \<open>
  An operation that makes exactly \<open>k\<close> calls into the driver when none of them fails, and
  raises as soon as one does.
\<close>

definition n_calls :: "nat \<Rightarrow> 'a py \<Rightarrow> bool" where
  "n_calls k m = (\<forall>n w.
     (calls_clean (k + n) w \<longrightarrow> (\<exists>x w'. m w = (Inr x, w') \<and> calls_clean n w')) \<and>
     (\<not> calls_clean (k + n) w \<longrightarrow>
        (\<exists>e w'. m w = (Inl e, w')) \<or> (\<exists>x w'. m w = (Inr x, w') \<and> \<not> calls_clean n w')))"

text \<open>An operation that leaves the part \<open>g\<close> of the world as it is, however it ends.\<close>

definition keeps :: "(world \<Rightarrow> 'b) \<Rightarrow> 'a py \<Rightarrow> bool" where
  "keeps g m = (\<forall>w. g (snd (m w)) = g w)"

text \<open>Everything but the connection pool, the fault plan and table \<^verbatim>\<open>chats\<close>.\<close>

definition beyond_store where
  "beyond_store w =
    (environ w, client w, template_cache w, app_initialized w, initialization_error w,
     files w, pystache_render w, anthropic_stream w, documents w, db_clock w, clock w,
     clock_reads w, uuids w, uuid_draws w, events w)"

text \<open>Table \<^verbatim>\<open>chats\<close> and its id sequence.\<close>

definition chat_table :: "world \<Rightarrow> chat_row list \<times> nat" where
  "chat_table w = (chats w, next_chat_id w)"

text \<open>The row an \<^verbatim>\<open>INSERT\<close> issued in world \<open>w\<close> creates.\<close>

definition new_row :: "world \<Rightarrow> string \<Rightarrow> string \<Rightarrow> string \<Rightarrow> int \<Rightarrow> chat_row" where
  "new_row w s r c t =
     \<lparr>row_id = next_chat_id w, row_timestamp = t, row_session_uuid = s, row_message_type = r,
      row_contents = c, row_created_at = db_clock w (next_chat_id w)\<rparr>"

text \<open>The rows of a session, in table order.\<close>

definition session_rows :: "string \<Rightarrow> world \<Rightarrow> chat_row list" where
  "session_rows s w = filter (\<lambda>r. row_session_uuid r = s) (chats w)"





text \<open>What \<^verbatim>\<open>fetchone\<close> finds among the rows of \<^verbatim>\<open>documents\<close> with the given name.\<close>

definition first_document :: "string \<Rightarrow> world \<Rightarrow> (string option \<times> string option) option" where
  "first_document name w =
     (case filter (\<lambda>d. doc_name d = name) (documents w) of
        [] \<Rightarrow> None | d # _ \<Rightarrow> Some (doc_resume d, doc_jd d))"

subsection \<open>One turn of \<^verbatim>\<open>chat_function\<close>\<close>

text \<open>
  The model client exists or \<^verbatim>\<open>initialize_client\<close> can create it, as is the case once
  \<^verbatim>\<open>validate_api_key\<close> has succeeded at start-up.
\<close>

definition client_available :: "world \<Rightarrow> bool" where
  "client_available w = (client w \<or> getenv_truthy w ''ANTHROPIC_API_KEY'')"

text \<open>The chunks \<^verbatim>\<open>stream_message\<close> yields for an answer of the remote service.\<close>

definition chunks_yielded :: "string list \<times> exn option \<Rightarrow> string list" where
  "chunks_yielded answer =
     (case answer of
        (texts, None) \<Rightarrow> texts
      | (texts, Some e) \<Rightarrow> texts @ [''Error during streaming: '' @ str_exn e])"

text \<open>The context dictionary \<^verbatim>\<open>render_prompt\<close> hands to pystache.\<close>

definition context_of :: "world \<Rightarrow> string \<Rightarrow> string \<Rightarrow> string option \<Rightarrow> (string \<times> string) list" where
  "context_of w resume jd email =
     [(''resume'', resume), (''jd'', jd),
      (''email'', case email of None \<Rightarrow> getenv_default w ''APPLICANT_EMAIL'' [] | Some a \<Rightarrow> a)]"

text \<open>What \<^verbatim>\<open>render_prompt\<close> returns for a template.\<close>

definition rendered :: "world \<Rightarrow> string \<Rightarrow> string \<Rightarrow> string \<Rightarrow> string" where
  "rendered w template resume jd =
     (case pystache_render w template (context_of w resume jd None) of
        Inl e \<Rightarrow> fallback_prompt resume jd | Inr text \<Rightarrow> text)"

text \<open>What \<^verbatim>\<open>load_template\<close> returns for the default path: the cache, else the file.\<close>

definition turn_template :: "world \<Rightarrow> string option" where
  "turn_template w =
     (case template_cache w of
        Some t \<Rightarrow> Some t
      | None \<Rightarrow> (case files w default_template_path of Inl e \<Rightarrow> None | Inr text \<Rightarrow> Some text))"

text \<open>
  The system prompt of a turn (lines 157 to 162 of \<^verbatim>\<open>main.py\<close>): the rendering of the
  template, and of the empty template when the template cannot be loaded.
\<close>

definition turn_prompt :: "world \<Rightarrow> string \<Rightarrow> string \<Rightarrow> string" where
  "turn_prompt w resume jd =
     rendered w (case turn_template w of None \<Rightarrow> [] | Some t \<Rightarrow> t) resume jd"

text \<open>The messages of a turn, from what \<^verbatim>\<open>get_session_history\<close> returned (line 155).\<close>

definition turn_messages :: "chat_row list option \<Rightarrow> api_message list" where
  "turn_messages h = format_message_history (case h of None \<Rightarrow> [] | Some ms \<Rightarrow> ms)"

text \<open>The chunks the streaming client yields in a turn.\<close>

definition turn_chunks :: "world \<Rightarrow> chat_row list option \<Rightarrow> string \<Rightarrow> string \<Rightarrow> string list" where
  "turn_chunks w h resume jd =
     chunks_yielded (anthropic_stream w (turn_messages h) (turn_prompt w resume jd))"

text \<open>The transcript after the first \<open>n\<close> chunks of the reply to \<open>message\<close>.\<close>

definition snapshot :: "transcript \<Rightarrow> string \<Rightarrow> string list \<Rightarrow> nat \<Rightarrow> transcript" where
  "snapshot history message chunks n = history @ [(message, Some (concat (take n chunks)))]"

text \<open>
  The events of a complete turn, given what the two appends returned (\<open>b1\<close>, \<open>b2\<close>) and
  what the history read returned (\<open>h\<close>).
\<close>

definition turn_trace ::
  "world \<Rightarrow> string \<Rightarrow> transcript \<Rightarrow> string \<Rightarrow> string \<Rightarrow> string \<Rightarrow> bool \<Rightarrow> chat_row list option
     \<Rightarrow> bool \<Rightarrow> event list" where
  "turn_trace w message history s resume jd b1 h b2 =
     [SaveCall s ''user'' message (Some (clock w (clock_reads w))) b1,
      LoadCall s h,
      Emit (history @ [(message, None)]) [],
      StreamCall (turn_messages h) (turn_prompt w resume jd)]
     @ map (\<lambda>n. Emit (snapshot history message (turn_chunks w h resume jd) (Suc n)) [])
         [0..<length (turn_chunks w h resume jd)]
     @ [SaveCall s ''assistant'' (concat (turn_chunks w h resume jd))
          (Some (clock w (Suc (clock_reads w)))) b2]"

fun is_save :: "event \<Rightarrow> bool" where
  "is_save (SaveCall s r c t b) = True"
| "is_save ev = False"

fun is_emit :: "event \<Rightarrow> bool" where
  "is_emit (Emit history cleared) = True"
| "is_emit ev = False"

subsection \<open>Example worlds\<close>

text \<open>
  A configured process before its first request: no pool and no client yet, an empty
  conversation table, one document, a store that does not fail, a model that answers in
  two chunks. The template has no tags, and a template without tags is rendered to itself.
\<close>

definition example_world :: world where
  "example_world =
     \<lparr>environ = (\<lambda>name. if name \<in> set (''ANTHROPIC_API_KEY'' # required_vars)
                         then Some ''configured'' else None),
      connection_pool = False,
      client = False,
      template_cache = None,
      app_initialized = True,
      initialization_error = None,
      files = (\<lambda>path. if path = default_template_path
                      then Inr ''You advise a hiring manager.''
                      else Inl (FileNotFoundError path)),
      pystache_render = (\<lambda>template context. Inr template),
      anthropic_stream = (\<lambda>messages system_prompt. ([''Good '', ''fit.''], None)),
      chats = [],
      documents = [\<lparr>doc_name = ''acme-swe'', doc_resume = Some ''R1'', doc_jd = Some ''J1''\<rparr>],
      next_chat_id = 1,
      db_clock = (\<lambda>n. 500 + int n),
      driver_faults = [],
      clock = (\<lambda>n. 100 + int n),
      clock_reads = 0,
      uuids = (\<lambda>n. ''session-'' @ replicate n CHR ''i''),
      uuid_draws = 0,
      events = []\<rparr>"

text \<open>The same with a store whose fourth driver call fails (the \<^verbatim>\<open>execute\<close> of the first operation).\<close>

definition failing_store_world :: world where
  "failing_store_world =
     example_world\<lparr>driver_faults := [None, None, None, Some (Exception ''connection lost'')]\<rparr>"

text \<open>
  The same with a store that fails at the eighth driver call: the first operation succeeds,
  the second fails at \<^verbatim>\<open>getconn\<close>.
\<close>

definition failing_read_world :: world where
  "failing_read_world =
     example_world\<lparr>driver_faults :=
       [None, None, None, None, None, None, None, Some (Exception ''connection lost'')]\<rparr>"



text \<open>The same without the variables of the database: no pool can be created.\<close>

definition unconfigured_store_world :: world where
  "unconfigured_store_world =
     example_world\<lparr>environ :=
       (\<lambda>name. if name = ''ANTHROPIC_API_KEY'' then Some ''configured'' else None)\<rparr>"

text \<open>The same with a model stream that breaks after the first chunk.\<close>

definition failing_stream_world :: world where
  "failing_stream_world =
     example_world\<lparr>anthropic_stream :=
       (\<lambda>messages system_prompt. ([''Good ''], Some (Exception ''Connection error.'')))\<rparr>"

text \<open>The same with a template file that cannot be read any more.\<close>

definition unreadable_template_world :: world where
  "unreadable_template_world =
     example_world\<lparr>files := (\<lambda>path. Inl (FileNotFoundError path))\<rparr>"

section \<open>Reasoning about runs\<close>

subsection \<open>Control flow\<close>

lemma py_return_apply: "py_return x w = (Inr x, w)"
  by (simp add: py_return_def)

lemma py_raise_apply: "py_raise e w = (Inl e, w)"
  by (simp add: py_raise_def)

lemma py_get_apply: "py_get f w = (Inr (f w), w)"
  by (simp add: py_get_def)

lemma py_modify_apply: "py_modify f w = (Inr (), f w)"
  by (simp add: py_modify_def)

lemma observe_apply: "observe ev w = (Inr (), w\<lparr>events := events w @ [ev]\<rparr>)"
  by (simp add: observe_def py_modify_def)

lemmas py_apply = py_return_apply py_raise_apply py_get_apply py_modify_apply observe_apply

lemma py_bind_Inr: "m w = (Inr x, w') \<Longrightarrow> py_bind m f w = f x w'"
  by (simp add: py_bind_def)

lemma py_bind_Inl: "m w = (Inl e, w') \<Longrightarrow> py_bind m f w = (Inl e, w')"
  by (simp add: py_bind_def)

lemma py_bind_InrE:
  assumes "py_bind m f w = (Inr y, w'')"
  obtains x w' where "m w = (Inr x, w')" and "f x w' = (Inr y, w'')"
  using assms by (auto simp: py_bind_def split: prod.splits sum.splits)

lemma try_finally_InrE:
  assumes "try_finally m fin w = (Inr y, w'')"
  obtains w' where "m w = (Inr y, w')" and "fin w' = (Inr (), w'')"
  using assms by (auto simp: try_finally_def split: prod.splits sum.splits)

subsection \<open>What the database operations leave alone\<close>

lemma keepsD: "keeps g m \<Longrightarrow> m w = (r, w') \<Longrightarrow> g w' = g w"
  by (auto simp: keeps_def dest: spec[of _ w])

lemma keeps_return: "keeps g (py_return x)"
  by (simp add: keeps_def py_apply)

lemma keeps_raise: "keeps g (py_raise e)"
  by (simp add: keeps_def py_apply)

lemma keeps_get: "keeps g (py_get f)"
  by (simp add: keeps_def py_apply)

lemma keeps_bind:
  assumes "keeps g m" and "\<And>x. keeps g (f x)"
  shows "keeps g (py_bind m f)"
  unfolding keeps_def
proof
  fix w
  obtain r w' where mw: "m w = (r, w')" by (cases "m w")
  have s1: "g w' = g w" using assms(1) mw by (rule keepsD)
  show "g (snd (py_bind m f w)) = g w"
  proof (cases r)
    case (Inl e)
    then show ?thesis using mw s1 by (simp add: py_bind_def)
  next
    case (Inr x)
    have "g (snd (f x w')) = g w'" using assms(2)[of x] by (simp add: keeps_def)
    then show ?thesis using mw Inr s1 by (simp add: py_bind_def)
  qed
qed

lemma keeps_try_except:
  assumes "keeps g m" and "\<And>e. keeps g (h e)"
  shows "keeps g (try_except m h)"
  unfolding keeps_def
proof
  fix w
  obtain r w' where mw: "m w = (r, w')" by (cases "m w")
  have s1: "g w' = g w" using assms(1) mw by (rule keepsD)
  show "g (snd (try_except m h w)) = g w"
  proof (cases r)
    case (Inr x)
    then show ?thesis using mw s1 by (simp add: try_except_def)
  next
    case (Inl e)
    have "g (snd (h e w')) = g w'" using assms(2)[of e] by (simp add: keeps_def)
    then show ?thesis using mw Inl s1 by (simp add: try_except_def)
  qed
qed

lemma keeps_try_finally:
  assumes "keeps g m" and "keeps g fin"
  shows "keeps g (try_finally m fin)"
  unfolding keeps_def
proof
  fix w
  obtain r w' where mw: "m w = (r, w')" by (cases "m w")
  obtain r2 w2 where fw: "fin w' = (r2, w2)" by (cases "fin w'")
  have "g w' = g w" using assms(1) mw by (rule keepsD)
  moreover have "g w2 = g w'" using assms(2) fw by (rule keepsD)
  ultimately have "g w2 = g w" by simp
  then show "g (snd (try_finally m fin w)) = g w"
    using mw fw by (cases r2) (simp_all add: try_finally_def)
qed

lemma keeps_driver_call:
  "keeps beyond_store driver_call" "keeps chat_table driver_call"
  by (simp_all add: keeps_def driver_call_def beyond_store_def chat_table_def
        split: list.splits option.splits)

lemma keeps_cursor_execute_insert: "keeps beyond_store (cursor_execute_insert s r c t)"
  unfolding cursor_execute_insert_def
  by (rule keeps_bind[OF keeps_driver_call(1)]) (simp add: keeps_def beyond_store_def)

lemma keeps_conn_commit: "keeps beyond_store (conn_commit row)"
  unfolding conn_commit_def
  by (rule keeps_bind[OF keeps_driver_call(1)]) (simp add: keeps_def beyond_store_def py_apply)

lemma keeps_get_connection_pool:
  "keeps beyond_store get_connection_pool" "keeps chat_table get_connection_pool"
proof -
  let ?create = "try_except (py_bind SimpleConnectionPool
      (\<lambda>_. py_modify (\<lambda>w. w\<lparr>connection_pool := True\<rparr>))) py_raise"
  have "keeps beyond_store ?create"
    by (intro keeps_try_except keeps_bind keeps_raise)
       (simp_all add: SimpleConnectionPool_def keeps_driver_call,
        simp add: keeps_def beyond_store_def py_apply)
  then show "keeps beyond_store get_connection_pool"
    by (simp add: keeps_def get_connection_pool_def Let_def py_apply)
  have "keeps chat_table ?create"
    by (intro keeps_try_except keeps_bind keeps_raise)
       (simp_all add: SimpleConnectionPool_def keeps_driver_call,
        simp add: keeps_def chat_table_def py_apply)
  then show "keeps chat_table get_connection_pool"
    by (simp add: keeps_def get_connection_pool_def Let_def py_apply)
qed

lemmas keeps_intros =
  keeps_bind keeps_try_except keeps_try_finally keeps_return keeps_raise keeps_get
  keeps_driver_call keeps_cursor_execute_insert keeps_conn_commit keeps_get_connection_pool

lemmas driver_unit_defs = pool_getconn_def conn_cursor_def cursor_close_def pool_putconn_def

lemma keeps_save_message_try: "keeps beyond_store (save_message_try s r c t)"
  unfolding save_message_try_def driver_unit_defs
  by (intro keeps_intros)

lemma keeps_get_session_history_try:
  "keeps beyond_store (get_session_history_try s)" "keeps chat_table (get_session_history_try s)"
  unfolding get_session_history_try_def driver_unit_defs
    cursor_execute_select_chats_def cursor_fetchall_def
  by (intro keeps_intros)+

lemma keeps_get_document_by_name_try:
  "keeps beyond_store (get_document_by_name_try n)" "keeps chat_table (get_document_by_name_try n)"
  unfolding get_document_by_name_try_def driver_unit_defs
    cursor_execute_select_document_def cursor_fetchone_def
  by (intro keeps_intros; simp add: keeps_return split: option.split)+

subsection \<open>What a database operation that ends without exception has done\<close>

lemma driver_call_Inr:
  assumes "driver_call w = (Inr x, w')"
  shows "chat_table w' = chat_table w" and "beyond_store w' = beyond_store w"
  using assms keepsD[OF keeps_driver_call(1)] keepsD[OF keeps_driver_call(2)] by blast+

lemma get_connection_pool_Inr:
  assumes "get_connection_pool w = (Inr x, w')"
  shows "chat_table w' = chat_table w" and "beyond_store w' = beyond_store w"
  using assms keepsD[OF keeps_get_connection_pool(1)] keepsD[OF keeps_get_connection_pool(2)]
  by blast+

lemma cursor_execute_insert_Inr:
  assumes "cursor_execute_insert s r c t w = (Inr row, w')"
  shows "row = new_row w s r c t" and "chats w' = chats w" 
  using assms
  by (auto simp: cursor_execute_insert_def py_bind_def driver_call_def new_row_def
      split: list.splits option.splits)

lemma conn_commit_Inr:
  assumes "conn_commit row w = (Inr x, w')"
  shows "chats w' = chats w @ [row]"
  using assms
  by (auto simp: conn_commit_def py_bind_def driver_call_def py_apply
      split: list.splits option.splits)

lemma save_message_try_Inr:
  assumes "save_message_try s r c t w = (Inr b, w')"
  shows "b" and "chats w' = chats w @ [new_row w s r c t]"
proof -
  from assms obtain w1 w2 w3 w4 row w5 w6 w7 where
    1: "get_connection_pool w = (Inr (), w1)" and
    2: "driver_call w1 = (Inr (), w2)" and
    3: "driver_call w2 = (Inr (), w3)" and
    4: "cursor_execute_insert s r c t w3 = (Inr row, w4)" and
    5: "conn_commit row w4 = (Inr (), w5)" and
    6: "driver_call w5 = (Inr (), w6)" and
    7: "py_return True w6 = (Inr b, w7)" and
    8: "driver_call w7 = (Inr (), w')"
    unfolding save_message_try_def driver_unit_defs
    by (elim py_bind_InrE try_finally_InrE) auto
  show b using 7 by (simp add: py_apply)
  have "chat_table w3 = chat_table w" "beyond_store w3 = beyond_store w"
    using get_connection_pool_Inr[OF 1] driver_call_Inr[OF 2] driver_call_Inr[OF 3] by simp_all
  then have "new_row w3 s r c t = new_row w s r c t" and c3: "chats w3 = chats w"
    by (simp_all add: new_row_def chat_table_def beyond_store_def)
  moreover have "chats w5 = chats w3 @ [new_row w3 s r c t]"
    using cursor_execute_insert_Inr[OF 4] conn_commit_Inr[OF 5] by simp
  moreover have "chats w' = chats w5"
    using driver_call_Inr(1)[OF 6] driver_call_Inr(1)[OF 8] 7
    by (simp add: chat_table_def py_apply)
  ultimately show "chats w' = chats w @ [new_row w s r c t]" by simp
qed

lemma get_session_history_try_Inr:
  assumes "get_session_history_try s w = (Inr h, w')"
  shows "h = Some (sort_key order_key (filter (\<lambda>r. row_session_uuid r = s) (chats w)))"
proof -
  from assms obtain w1 w2 w3 w4 rs ms w5 w6 w7 where
    1: "get_connection_pool w = (Inr (), w1)" and
    2: "driver_call w1 = (Inr (), w2)" and
    3: "driver_call w2 = (Inr (), w3)" and
    4: "cursor_execute_select_chats s w3 = (Inr rs, w4)" and
    5: "cursor_fetchall rs w4 = (Inr ms, w5)" and
    7: "py_return (Some ms) w6 = (Inr h, w7)"
    unfolding get_session_history_try_def driver_unit_defs
    by (elim py_bind_InrE try_finally_InrE) auto
  have "chat_table w3 = chat_table w"
    using get_connection_pool_Inr[OF 1] driver_call_Inr[OF 2] driver_call_Inr[OF 3] by simp
  then have "chats w3 = chats w" by (simp add: chat_table_def)
  moreover have "rs = sort_key order_key (filter (\<lambda>r. row_session_uuid r = s) (chats w3))"
    using 4 by (auto simp: cursor_execute_select_chats_def py_bind_def driver_call_def py_apply
        split: list.splits option.splits)
  moreover have "ms = rs"
    using 5 by (auto simp: cursor_fetchall_def py_bind_def py_apply split: prod.splits sum.splits)
  ultimately show ?thesis using 7 by (simp add: py_apply)
qed

subsection \<open>When a database operation ends without exception\<close>

lemma n_callsD1: "n_calls k m \<Longrightarrow> calls_clean (k + n) w \<Longrightarrow> \<exists>x w'. m w = (Inr x, w') \<and> calls_clean n w'"
  unfolding n_calls_def by blast

lemma n_callsD2: "n_calls k m \<Longrightarrow> \<not> calls_clean (k + n) w \<Longrightarrow>
   (\<exists>e w'. m w = (Inl e, w')) \<or> (\<exists>x w'. m w = (Inr x, w') \<and> \<not> calls_clean n w')"
  unfolding n_calls_def by blast

lemma n_calls_return: "n_calls 0 (py_return x)"
  by (simp add: n_calls_def py_apply)

lemma n_calls_driver_call: "n_calls (Suc 0) driver_call"
  by (auto simp: n_calls_def calls_clean_def driver_call_def split: list.splits option.splits)

lemma n_calls_bind:
  assumes "n_calls j m" and "\<And>x. n_calls k (f x)"
  shows "n_calls (j + k) (py_bind m f)"
  unfolding n_calls_def
proof (intro allI conjI impI)
  fix n w
  assume "calls_clean (j + k + n) w"
  then have "calls_clean (j + (k + n)) w" by (simp add: add.assoc)
  from n_callsD1[OF assms(1) this] obtain x w' where
    m: "m w = (Inr x, w')" and c: "calls_clean (k + n) w'" by blast
  from n_callsD1[OF assms(2) c] obtain y w'' where "f x w' = (Inr y, w'')" "calls_clean n w''"
    by blast
  then show "\<exists>x w'. py_bind m f w = (Inr x, w') \<and> calls_clean n w'"
    using m by (simp add: py_bind_def)
next
  fix n w
  assume "\<not> calls_clean (j + k + n) w"
  then have "\<not> calls_clean (j + (k + n)) w" by (simp add: add.assoc)
  from n_callsD2[OF assms(1) this]
  show "(\<exists>e w'. py_bind m f w = (Inl e, w')) \<or>
        (\<exists>x w'. py_bind m f w = (Inr x, w') \<and> \<not> calls_clean n w')"
  proof
    assume "\<exists>e w'. m w = (Inl e, w')"
    then show ?thesis by (auto simp: py_bind_def)
  next
    assume "\<exists>x w'. m w = (Inr x, w') \<and> \<not> calls_clean (k + n) w'"
    then obtain x w' where m: "m w = (Inr x, w')" and c: "\<not> calls_clean (k + n) w'" by blast
    from n_callsD2[OF assms(2) c] show ?thesis using m by (auto simp: py_bind_def)
  qed
qed

lemma n_calls_try_finally:
  assumes "n_calls j m" and "n_calls k fin"
  shows "n_calls (j + k) (try_finally m fin)"
  unfolding n_calls_def
proof (intro allI conjI impI)
  fix n w
  assume "calls_clean (j + k + n) w"
  then have "calls_clean (j + (k + n)) w" by (simp add: add.assoc)
  from n_callsD1[OF assms(1) this] obtain x w' where
    m: "m w = (Inr x, w')" and c: "calls_clean (k + n) w'" by blast
  from n_callsD1[OF assms(2) c] obtain y w'' where "fin w' = (Inr y, w'')" "calls_clean n w''"
    by blast
  then show "\<exists>x w'. try_finally m fin w = (Inr x, w') \<and> calls_clean n w'"
    using m by (simp add: try_finally_def)
next
  fix n w
  assume "\<not> calls_clean (j + k + n) w"
  then have "\<not> calls_clean (j + (k + n)) w" by (simp add: add.assoc)
  from n_callsD2[OF assms(1) this]
  show "(\<exists>e w'. try_finally m fin w = (Inl e, w')) \<or>
        (\<exists>x w'. try_finally m fin w = (Inr x, w') \<and> \<not> calls_clean n w')"
  proof
    assume "\<exists>e w'. m w = (Inl e, w')"
    then obtain e w' where m: "m w = (Inl e, w')" by blast
    obtain r w'' where "fin w' = (r, w'')" by (cases "fin w'")
    then show ?thesis using m by (cases r) (auto simp: try_finally_def)
  next
    assume "\<exists>x w'. m w = (Inr x, w') \<and> \<not> calls_clean (k + n) w'"
    then obtain x w' where m: "m w = (Inr x, w')" and c: "\<not> calls_clean (k + n) w'" by blast
    from n_callsD2[OF assms(2) c] show ?thesis using m by (auto simp: try_finally_def)
  qed
qed

lemma n_calls_get: "n_calls 0 (py_get f)"
  by (simp add: n_calls_def py_apply)

lemma n_calls_one_then:
  assumes "\<And>x. n_calls 0 (f x)"
  shows "n_calls (Suc 0) (py_bind driver_call f)"
  using n_calls_bind[OF n_calls_driver_call assms] by simp

lemma n_calls_cursor_execute_insert: "n_calls (Suc 0) (cursor_execute_insert s r c t)"
  unfolding cursor_execute_insert_def
  by (rule n_calls_one_then) (simp add: n_calls_def calls_clean_def)

lemma n_calls_conn_commit: "n_calls (Suc 0) (conn_commit row)"
  unfolding conn_commit_def
  by (rule n_calls_one_then) (simp add: n_calls_def calls_clean_def py_apply)

lemma n_calls_save_message_conn:
  "n_calls 6 (py_bind pool_getconn (\<lambda>_.
     try_finally
       (py_bind conn_cursor (\<lambda>_.
        py_bind (cursor_execute_insert s r c t) (\<lambda>pending.
        py_bind (conn_commit pending) (\<lambda>_.
        py_bind cursor_close (\<lambda>_.
        py_return True)))))
       pool_putconn))"
proof -
  have "n_calls (Suc 0 + ((Suc 0 + (Suc 0 + (Suc 0 + (Suc 0 + 0)))) + Suc 0)) (py_bind pool_getconn (\<lambda>_.
     try_finally
       (py_bind conn_cursor (\<lambda>_.
        py_bind (cursor_execute_insert s r c t) (\<lambda>pending.
        py_bind (conn_commit pending) (\<lambda>_.
        py_bind cursor_close (\<lambda>_.
        py_return True)))))
       pool_putconn))"
    unfolding driver_unit_defs
    by (intro n_calls_bind n_calls_try_finally n_calls_driver_call n_calls_return
        n_calls_cursor_execute_insert n_calls_conn_commit)
  then show ?thesis by (simp add: eval_nat_numeral)
qed

lemma missing_vars_empty:
  "filter (\<lambda>var. \<not> getenv_truthy w var) required_vars = [] \<longleftrightarrow>
     (\<forall>var \<in> set required_vars. getenv_truthy w var)"
  by (simp add: filter_empty_conv)

lemma get_connection_pool_created: "connection_pool w \<Longrightarrow> get_connection_pool w = (Inr (), w)"
  by (simp add: get_connection_pool_def py_apply)

lemma get_connection_pool_unavailable:
  "\<not> pool_available w \<Longrightarrow> \<exists>e. get_connection_pool w = (Inl e, w)"
  unfolding pool_available_def get_connection_pool_def Let_def missing_vars_empty
  by (simp add: py_apply)

lemma get_connection_pool_create:
  assumes "\<not> connection_pool w" and "pool_available w"
  shows "get_connection_pool w =
     (case driver_call w of (Inl e, w') \<Rightarrow> (Inl e, w')
                          | (Inr x, w') \<Rightarrow> (Inr (), w'\<lparr>connection_pool := True\<rparr>))"
  using assms unfolding pool_available_def get_connection_pool_def Let_def missing_vars_empty
  by (simp add: py_apply try_except_def py_bind_def SimpleConnectionPool_def
      split: prod.splits sum.splits)

lemma calls_clean_pool_update [simp]:
  "calls_clean n (w\<lparr>connection_pool := p\<rparr>) = calls_clean n w"
  by (simp add: calls_clean_def)

lemma with_pool:
  assumes "n_calls 6 body"
  shows "store_up w \<Longrightarrow> \<exists>x w'. py_bind get_connection_pool (\<lambda>_. body) w = (Inr x, w')"
    and "\<not> store_up w \<Longrightarrow> \<exists>e w'. py_bind get_connection_pool (\<lambda>_. body) w = (Inl e, w')"
proof -
  have six: "calls_clean 6 v \<Longrightarrow> \<exists>x v'. body v = (Inr x, v')" for v
    using n_callsD1[OF assms, of 0 v] by auto
  have nsix: "\<not> calls_clean 6 v \<Longrightarrow> \<exists>e v'. body v = (Inl e, v')" for v
    using n_callsD2[OF assms, of 0 v] by (auto simp: calls_clean_def)
  {
    assume up: "store_up w"
    show "\<exists>x w'. py_bind get_connection_pool (\<lambda>_. body) w = (Inr x, w')"
    proof (cases "connection_pool w")
      case True
      then show ?thesis using up six[of w]
        by (auto simp: store_up_def py_bind_Inr[OF get_connection_pool_created])
    next
      case False
      then have av: "pool_available w" and "calls_clean (Suc 0 + 6) w"
        using up by (simp_all add: store_up_def)
      from n_callsD1[OF n_calls_driver_call this(2)] obtain w1 where
        d: "driver_call w = (Inr (), w1)" and c: "calls_clean 6 w1" by auto
      have "get_connection_pool w = (Inr (), w1\<lparr>connection_pool := True\<rparr>)"
        by (simp add: get_connection_pool_create[OF False av] d)
      then show ?thesis using six[of "w1\<lparr>connection_pool := True\<rparr>"] c
        by (auto simp: py_bind_def)
    qed
  }
  {
    assume down: "\<not> store_up w"
    show "\<exists>e w'. py_bind get_connection_pool (\<lambda>_. body) w = (Inl e, w')"
    proof (cases "pool_available w")
      case False
      then show ?thesis using get_connection_pool_unavailable[of w] by (auto simp: py_bind_def)
    next
      case av: True
      show ?thesis
      proof (cases "connection_pool w")
        case True
        then have "\<not> calls_clean 6 w" using down av by (simp add: store_up_def)
        then show ?thesis using nsix[of w] True
          by (auto simp: py_bind_Inr[OF get_connection_pool_created])
      next
        case False
        then have "\<not> calls_clean (Suc 0 + 6) w" using down av by (simp add: store_up_def)
        from n_callsD2[OF n_calls_driver_call this]
        show ?thesis
        proof
          assume "\<exists>e w'. driver_call w = (Inl e, w')"
          then show ?thesis
            by (auto simp: get_connection_pool_create[OF False av] py_bind_def)
        next
          assume "\<exists>x w'. driver_call w = (Inr x, w') \<and> \<not> calls_clean 6 w'"
          then obtain w1 where d: "driver_call w = (Inr (), w1)" and c: "\<not> calls_clean 6 w1"
            by auto
          have "get_connection_pool w = (Inr (), w1\<lparr>connection_pool := True\<rparr>)"
            by (simp add: get_connection_pool_create[OF False av] d)
          then show ?thesis using nsix[of "w1\<lparr>connection_pool := True\<rparr>"] c
            by (auto simp: py_bind_def)
        qed
      qed
    qed
  }
qed

lemma save_message_try_up:
  "store_up w \<Longrightarrow> \<exists>x w'. save_message_try s r c t w = (Inr x, w')"
  "\<not> store_up w \<Longrightarrow> \<exists>e w'. save_message_try s r c t w = (Inl e, w')"
  unfolding save_message_try_def
  using with_pool[OF n_calls_save_message_conn] by blast+

lemma n_calls_get_session_history_conn:
  "n_calls 6 (py_bind pool_getconn (\<lambda>_.
     try_finally
       (py_bind conn_cursor (\<lambda>_.
        py_bind (cursor_execute_select_chats s) (\<lambda>result_set.
        py_bind (cursor_fetchall result_set) (\<lambda>messages.
        py_bind cursor_close (\<lambda>_.
        py_return (Some messages))))))
       pool_putconn))"
proof -
  have "n_calls (Suc 0 + ((Suc 0 + ((Suc 0 + 0) + ((Suc 0 + 0) + (Suc 0 + 0)))) + Suc 0)) (py_bind pool_getconn (\<lambda>_.
     try_finally
       (py_bind conn_cursor (\<lambda>_.
        py_bind (cursor_execute_select_chats s) (\<lambda>result_set.
        py_bind (cursor_fetchall result_set) (\<lambda>messages.
        py_bind cursor_close (\<lambda>_.
        py_return (Some messages))))))
       pool_putconn))"
    unfolding driver_unit_defs cursor_execute_select_chats_def cursor_fetchall_def
    by (intro n_calls_bind n_calls_try_finally n_calls_driver_call n_calls_return n_calls_get)
  then show ?thesis by (simp add: eval_nat_numeral)
qed

lemma get_session_history_try_up:
  "store_up w \<Longrightarrow> \<exists>x w'. get_session_history_try s w = (Inr x, w')"
  "\<not> store_up w \<Longrightarrow> \<exists>e w'. get_session_history_try s w = (Inl e, w')"
  unfolding get_session_history_try_def
  using with_pool[OF n_calls_get_session_history_conn] by blast+

lemma n_calls_option_case:
  "n_calls 0 (case result of Some r \<Rightarrow> py_return (Some r) | None \<Rightarrow> py_return None)"
  by (cases result) (simp_all add: n_calls_return)

lemma n_calls_get_document_by_name_conn:
  "n_calls 6 (py_bind pool_getconn (\<lambda>_.
     try_finally
       (py_bind conn_cursor (\<lambda>_.
        py_bind (cursor_execute_select_document name) (\<lambda>result_set.
        py_bind (cursor_fetchone result_set) (\<lambda>result.
        py_bind cursor_close (\<lambda>_.
        (case result of Some r \<Rightarrow> py_return (Some r) | None \<Rightarrow> py_return None))))))
       pool_putconn))"
proof -
  have "n_calls (Suc 0 + ((Suc 0 + ((Suc 0 + 0) + ((Suc 0 + 0) + (Suc 0 + 0)))) + Suc 0)) (py_bind pool_getconn (\<lambda>_.
     try_finally
       (py_bind conn_cursor (\<lambda>_.
        py_bind (cursor_execute_select_document name) (\<lambda>result_set.
        py_bind (cursor_fetchone result_set) (\<lambda>result.
        py_bind cursor_close (\<lambda>_.
        (case result of Some r \<Rightarrow> py_return (Some r) | None \<Rightarrow> py_return None))))))
       pool_putconn))"
    unfolding driver_unit_defs cursor_execute_select_document_def cursor_fetchone_def
    by (intro n_calls_bind n_calls_try_finally n_calls_driver_call n_calls_return n_calls_get
        n_calls_option_case)
  then show ?thesis by (simp add: eval_nat_numeral)
qed

lemma get_document_by_name_try_up:
  "store_up w \<Longrightarrow> \<exists>x w'. get_document_by_name_try name w = (Inr x, w')"
  "\<not> store_up w \<Longrightarrow> \<exists>e w'. get_document_by_name_try name w = (Inl e, w')"
  unfolding get_document_by_name_try_def
  using with_pool[OF n_calls_get_document_by_name_conn] by blast+

subsection \<open>The three operations of the store, run to their end\<close>

lemma store_up_cong:
  "connection_pool w' = connection_pool w \<Longrightarrow> environ w' = environ w \<Longrightarrow>
   driver_faults w' = driver_faults w \<Longrightarrow> store_up w' = store_up w"
  by (simp add: store_up_def pool_available_def calls_clean_def getenv_truthy_def)

lemma save_message_try_unavailable:
  assumes "\<not> pool_available w"
  shows "\<exists>e. save_message_try s r c t w = (Inl e, w)"
proof -
  obtain e where "get_connection_pool w = (Inl e, w)"
    using get_connection_pool_unavailable[OF assms] by blast
  then show ?thesis by (simp add: save_message_try_def py_bind_def)
qed

lemma save_message_try_except:
  obtains b w1 where
    "try_except (save_message_try s r c t) (\<lambda>e. py_return False) w = (Inr b, w1)"
    "beyond_store w1 = beyond_store w"
    "b \<longleftrightarrow> store_up w"
    "b \<longrightarrow> chats w1 = chats w @ [new_row w s r c t]"
    "\<not> pool_available w \<longrightarrow> w1 = w"
proof -
  obtain r0 w1 where run: "save_message_try s r c t w = (r0, w1)"
    by (cases "save_message_try s r c t w")
  have keep: "beyond_store w1 = beyond_store w"
    using keepsD[OF keeps_save_message_try run] .
  have same: "\<not> pool_available w \<longrightarrow> w1 = w"
    using save_message_try_unavailable[of w s r c t] run by auto
  show ?thesis
  proof (cases r0)
    case (Inl e)
    then have "\<not> store_up w" using save_message_try_up(1)[of w s r c t] run by auto
    then show ?thesis using that[of False w1] run Inl keep same
      by (simp add: try_except_def py_apply)
  next
    case (Inr x)
    then have x and "chats w1 = chats w @ [new_row w s r c t]"
      using save_message_try_Inr[of s r c t w x w1] run by simp_all
    moreover have "store_up w" using save_message_try_up(2)[of w s r c t] run Inr by auto
    ultimately show ?thesis using that[of True w1] run Inr keep same
      by (simp add: try_except_def)
  qed
qed

lemma save_message_Some:
  obtains b w1 where
    "save_message s r c (Some t) w =
       (Inr b, w1\<lparr>events := events w @ [SaveCall s r c (Some t) b]\<rparr>)"
    "beyond_store w1 = beyond_store w"
    "b \<longleftrightarrow> store_up w"
    "b \<longrightarrow> chats w1 = chats w @ [new_row w s r c t]"
    "\<not> pool_available w \<longrightarrow> w1 = w"
proof -
  obtain b w1 where
    1: "try_except (save_message_try s r c t) (\<lambda>e. py_return False) w = (Inr b, w1)" and
    2: "beyond_store w1 = beyond_store w" and 3: "b \<longleftrightarrow> store_up w" and
    4: "b \<longrightarrow> chats w1 = chats w @ [new_row w s r c t]" and
    5: "\<not> pool_available w \<longrightarrow> w1 = w"
    using save_message_try_except[of s r c t w] by blast
  have "events w1 = events w" using 2 by (simp add: beyond_store_def)
  then have "save_message s r c (Some t) w =
       (Inr b, w1\<lparr>events := events w @ [SaveCall s r c (Some t) b]\<rparr>)"
    by (simp add: save_message_def py_bind_def py_apply 1)
  then show ?thesis using that 2 3 4 5 by blast
qed


lemma get_session_history_run:
  obtains h w1 where
    "get_session_history s w = (Inr h, w1\<lparr>events := events w @ [LoadCall s h]\<rparr>)"
    "beyond_store w1 = beyond_store w"
    "chat_table w1 = chat_table w"
    "h = (if store_up w then Some (sort_key order_key (session_rows s w)) else None)"
proof -
  obtain r0 w1 where run: "get_session_history_try s w = (r0, w1)"
    by (cases "get_session_history_try s w")
  have keep: "beyond_store w1 = beyond_store w" "chat_table w1 = chat_table w"
    using keepsD[OF keeps_get_session_history_try(1) run]
      keepsD[OF keeps_get_session_history_try(2) run] .
  then have ev: "events w1 = events w" by (simp add: beyond_store_def)
  show ?thesis
  proof (cases r0)
    case (Inl e)
    then have "\<not> store_up w" using get_session_history_try_up(1)[of w s] run by auto
    moreover have "get_session_history s w = (Inr None, w1\<lparr>events := events w @ [LoadCall s None]\<rparr>)"
      using run Inl ev by (simp add: get_session_history_def py_bind_def try_except_def py_apply)
    ultimately show ?thesis using that[of None w1] keep by simp
  next
    case (Inr x)
    then have x: "x = Some (sort_key order_key (session_rows s w))"
      using get_session_history_try_Inr[of s w x w1] run by (simp add: session_rows_def)
    have "store_up w" using get_session_history_try_up(2)[of w s] run Inr by auto
    moreover have "get_session_history s w = (Inr x, w1\<lparr>events := events w @ [LoadCall s x]\<rparr>)"
      using run Inr ev by (simp add: get_session_history_def py_bind_def try_except_def py_apply)
    ultimately show ?thesis using that[of x w1] keep x by simp
  qed
qed

lemma get_document_by_name_try_Inr:
  assumes "get_document_by_name_try name w = (Inr x, w')"
  shows "x = first_document name w"
proof -
  from assms obtain w1 w2 w3 w4 rs res w5 w6 w7 where
    1: "get_connection_pool w = (Inr (), w1)" and
    2: "driver_call w1 = (Inr (), w2)" and
    3: "driver_call w2 = (Inr (), w3)" and
    4: "cursor_execute_select_document name w3 = (Inr rs, w4)" and
    5: "cursor_fetchone rs w4 = (Inr res, w5)" and
    7: "(case res of Some r \<Rightarrow> py_return (Some r) | None \<Rightarrow> py_return None) w6 = (Inr x, w7)"
    unfolding get_document_by_name_try_def driver_unit_defs
    by (elim py_bind_InrE try_finally_InrE) auto
  have "beyond_store w3 = beyond_store w"
    using get_connection_pool_Inr[OF 1] driver_call_Inr[OF 2] driver_call_Inr[OF 3] by simp
  then have "documents w3 = documents w" by (simp add: beyond_store_def)
  moreover have "rs = map (\<lambda>d. (doc_resume d, doc_jd d)) (filter (\<lambda>d. doc_name d = name) (documents w3))"
    using 4 by (auto simp: cursor_execute_select_document_def py_bind_def driver_call_def py_apply
        split: list.splits option.splits)
  moreover have "res = (case rs of [] \<Rightarrow> None | r # _ \<Rightarrow> Some r)"
    using 5 by (auto simp: cursor_fetchone_def py_bind_def py_apply split: prod.splits sum.splits)
  moreover have "x = res" using 7 by (cases res) (simp_all add: py_apply)
  ultimately show ?thesis by (simp add: first_document_def split: list.splits)
qed

lemma get_document_by_name_run:
  obtains w1 where
    "get_document_by_name name w =
       (Inr (if store_up w then first_document name w else None), w1)"
    "beyond_store w1 = beyond_store w"
proof -
  obtain r0 w1 where run: "get_document_by_name_try name w = (r0, w1)"
    by (cases "get_document_by_name_try name w")
  have keep: "beyond_store w1 = beyond_store w"
    using keepsD[OF keeps_get_document_by_name_try(1) run] .
  show ?thesis
  proof (cases r0)
    case (Inl e)
    then have "\<not> store_up w" using get_document_by_name_try_up(1)[of w name] run by auto
    then show ?thesis using that[of w1] run Inl keep
      by (simp add: get_document_by_name_def try_except_def py_apply)
  next
    case (Inr x)
    then have "x = first_document name w"
      using get_document_by_name_try_Inr[of name w x w1] run by simp
    moreover have "store_up w" using get_document_by_name_try_up(2)[of w name] run Inr by auto
    ultimately show ?thesis using that[of w1] run Inr keep
      by (simp add: get_document_by_name_def try_except_def)
  qed
qed

subsection \<open>The prompt, the stream and the loop\<close>

lemma render_prompt_run:
  "render_prompt template resume jd email w =
     (Inr (case pystache_render w template (context_of w resume jd email) of
             Inl e \<Rightarrow> fallback_prompt resume jd | Inr text \<Rightarrow> text), w)"
  by (cases email)
     (simp_all add: render_prompt_def try_except_def py_bind_def py_apply pystache_render_call_def
        context_of_def split: sum.splits)

lemma load_template_run:
  "load_template path w =
     (case template_cache w of
        Some t \<Rightarrow> (Inr (Some t), w)
      | None \<Rightarrow> (case files w path of
                   Inl e \<Rightarrow> (Inr None, w)
                 | Inr text \<Rightarrow> (Inr (Some text), w\<lparr>template_cache := Some text\<rparr>)))"
  by (simp add: load_template_def try_except_def py_bind_def py_apply open_read_def
      split: option.splits sum.splits exn.splits)

lemma get_system_prompt_run:
  "\<exists>tc. get_system_prompt resume jd default_template_path w =
     (Inr (case turn_template w of
             None \<Rightarrow> None
           | Some t \<Rightarrow> Some (case pystache_render w t (context_of w resume jd None) of
                               Inl e \<Rightarrow> fallback_prompt resume jd | Inr text \<Rightarrow> text)),
      w\<lparr>template_cache := tc\<rparr>)"
proof (cases "template_cache w")
  case (Some t)
  have "w\<lparr>template_cache := template_cache w\<rparr> = w" by simp
  then show ?thesis using Some
    by (intro exI[of _ "template_cache w"])
       (simp add: get_system_prompt_def py_bind_def load_template_run render_prompt_run
          turn_template_def py_apply)
next
  case None
  show ?thesis
  proof (cases "files w default_template_path")
    case (Inl e)
    have "w\<lparr>template_cache := template_cache w\<rparr> = w" by simp
    then show ?thesis using None Inl
      by (intro exI[of _ "template_cache w"])
         (simp add: get_system_prompt_def py_bind_def load_template_run turn_template_def py_apply)
  next
    case (Inr body)
    then show ?thesis using None
      by (intro exI[of _ "Some body"])
         (simp add: get_system_prompt_def py_bind_def load_template_run render_prompt_run
          turn_template_def py_apply context_of_def getenv_default_def)
  qed
qed

lemma stream_message_run:
  assumes "client_available w"
  shows "\<exists>ret. stream_message messages system_prompt w =
     (Inr (chunks_yielded (anthropic_stream w messages system_prompt), ret),
      w\<lparr>client := True, events := events w @ [StreamCall messages system_prompt]\<rparr>)"
proof (cases "client w")
  case True
  then have "w\<lparr>client := True\<rparr> = w" by simp
  then have *: "w\<lparr>events := ev\<rparr> = w\<lparr>client := True, events := ev\<rparr>" for ev by simp
  show ?thesis using True
    by (cases "anthropic_stream w messages system_prompt")
       (auto simp: stream_message_def py_bind_def py_apply chunks_yielded_def Let_def *
        split: option.splits)
next
  case False
  then have "getenv_truthy w ''ANTHROPIC_API_KEY''" using assms by (simp add: client_available_def)
  then show ?thesis using False
    by (cases "anthropic_stream w messages system_prompt")
       (auto simp: stream_message_def py_bind_def py_apply chunks_yielded_def Let_def
          initialize_client_def split: option.splits)
qed

lemma stream_message_unavailable:
  assumes "\<not> client_available w"
  shows "stream_message messages system_prompt w =
     (Inl (ValueError ''ANTHROPIC_API_KEY environment variable not set''), w)"
  using assms
  by (simp add: client_available_def stream_message_def py_bind_def py_apply initialize_client_def)

lemma chat_function_loop_run:
  "chat_function_loop chunks full (history @ [(message, slot)]) w =
     (Inr (full @ concat chunks,
           history @ [(message, if chunks = [] then slot else Some (full @ concat chunks))]),
      w\<lparr>events := events w @
          map (\<lambda>n. Emit (history @ [(message, Some (full @ concat (take (Suc n) chunks)))]) [])
            [0..<length chunks]\<rparr>)"
proof (induction chunks arbitrary: full slot w)
  case Nil
  then show ?case by (simp add: py_apply)
next
  case (Cons chunk chunks)
  have shift: "map f [0..<Suc n] = f 0 # map (\<lambda>k. f (Suc k)) [0..<n]" for f :: "nat \<Rightarrow> event" and n
    by (simp add: upt_rec[of 0] map_Suc_upt[symmetric] del: upt_Suc)
  show ?case
    apply (simp only: chat_function_loop.simps Let_def)
    apply (simp add: py_bind_def py_yield_def py_apply Cons.IH shift del: upt_Suc)
    done
qed

subsection \<open>A complete turn\<close>

lemma turn_prompt_cong:
  assumes "template_cache w' = template_cache w" and "files w' = files w"
    and "pystache_render w' = pystache_render w" and "environ w' = environ w"
  shows "turn_prompt w' resume jd = turn_prompt w resume jd"
  by (simp add: assms turn_prompt_def rendered_def turn_template_def context_of_def
      getenv_default_def cong: option.case_cong sum.case_cong)

lemma system_prompt_run:
  "\<exists>tc. py_bind (get_system_prompt resume jd default_template_path)
           (\<lambda>loaded. case loaded of None \<Rightarrow> render_prompt [] resume jd None
                                    | Some p \<Rightarrow> py_return p) w =
     (Inr (turn_prompt w resume jd), w\<lparr>template_cache := tc\<rparr>)"
proof -
  obtain tc where g: "get_system_prompt resume jd default_template_path w =
     (Inr (case turn_template w of
             None \<Rightarrow> None
           | Some t \<Rightarrow> Some (case pystache_render w t (context_of w resume jd None) of
                               Inl e \<Rightarrow> fallback_prompt resume jd | Inr text \<Rightarrow> text)),
      w\<lparr>template_cache := tc\<rparr>)"
    using get_system_prompt_run[of resume jd w] by blast
  have c: "context_of (w\<lparr>template_cache := tc\<rparr>) resume jd None = context_of w resume jd None"
    by (simp add: context_of_def getenv_default_def)
  show ?thesis
    by (rule exI[of _ tc])
       (simp add: py_bind_def g render_prompt_run py_apply turn_prompt_def rendered_def c
          split: option.splits)
qed

lemma py_bind_assoc: "py_bind (py_bind m f) g = py_bind m (\<lambda>x. py_bind (f x) g)"
  by (rule ext) (simp add: py_bind_def split: prod.splits sum.splits)

lemma chat_function_run:
  assumes nonblank: "strip message \<noteq> []" and avail: "client_available w"
  obtains b1 h b2 wl w' where
    "chat_function message history s resume jd w =
       (Inr (history @ [(message, if turn_chunks w h resume jd = [] then None
                                  else Some (concat (turn_chunks w h resume jd)))], []), w')"
    "events w' = events w @ turn_trace w message history s resume jd b1 h b2"
    "b1 \<longleftrightarrow> store_up w"
    "b1 \<longrightarrow> chats wl = chats w @ [new_row w s ''user'' message (clock w (clock_reads w))]"
    "fst (get_session_history s wl) = Inr h"
    "h = (if store_up wl then Some (sort_key order_key (session_rows s wl)) else None)"
    "\<not> pool_available w \<longrightarrow> h = None"
    "b2 \<longrightarrow> chats w' \<noteq> [] \<and>
       row_session_uuid (last (chats w')) = s \<and>
       row_message_type (last (chats w')) = ''assistant'' \<and>
       row_contents (last (chats w')) = concat (turn_chunks w h resume jd) \<and>
       row_timestamp (last (chats w')) = clock w (Suc (clock_reads w))"
proof -
  let ?t1 = "clock w (clock_reads w)"
  let ?t2 = "clock w (Suc (clock_reads w))"
  let ?wa = "w\<lparr>clock_reads := Suc (clock_reads w)\<rparr>"
  have now1: "datetime_now w = (Inr ?t1, ?wa)" by (simp add: datetime_now_def)
  obtain b1 wb0 where
    save1: "save_message s ''user'' message (Some ?t1) ?wa =
       (Inr b1, wb0\<lparr>events := events ?wa @ [SaveCall s ''user'' message (Some ?t1) b1]\<rparr>)" and
    kb: "beyond_store wb0 = beyond_store ?wa" and
    b1: "b1 \<longleftrightarrow> store_up ?wa" and
    rows1: "b1 \<longrightarrow> chats wb0 = chats ?wa @ [new_row ?wa s ''user'' message ?t1]" and
    same1: "\<not> pool_available ?wa \<longrightarrow> wb0 = ?wa"
    using save_message_Some[of s "''user''" message ?t1 ?wa] by blast
  let ?wb = "wb0\<lparr>events := events ?wa @ [SaveCall s ''user'' message (Some ?t1) b1]\<rparr>"
  obtain h wc0 where
    load: "get_session_history s ?wb = (Inr h, wc0\<lparr>events := events ?wb @ [LoadCall s h]\<rparr>)" and
    kc: "beyond_store wc0 = beyond_store ?wb" and
    hval: "h = (if store_up ?wb then Some (sort_key order_key (session_rows s ?wb)) else None)"
    using get_session_history_run[of s ?wb] by blast
  let ?wc = "wc0\<lparr>events := events ?wb @ [LoadCall s h]\<rparr>"
  let ?prompt = "turn_prompt w resume jd"
  let ?api = "turn_messages h"
  let ?chunks = "turn_chunks w h resume jd"
  have tp: "turn_prompt ?wc resume jd = ?prompt"
    using kc kb by (intro turn_prompt_cong) (simp_all add: beyond_store_def)
  obtain tc where
    prompt: "py_bind (get_system_prompt resume jd default_template_path)
           (\<lambda>loaded. case loaded of None \<Rightarrow> render_prompt [] resume jd None
                                    | Some p \<Rightarrow> py_return p) ?wc =
     (Inr ?prompt, ?wc\<lparr>template_cache := tc\<rparr>)"
    using system_prompt_run[of resume jd ?wc] unfolding tp by blast
  let ?wd = "?wc\<lparr>template_cache := tc\<rparr>"
  let ?we = "?wd\<lparr>events := events ?wd @ [Emit (history @ [(message, None)]) []]\<rparr>"
  have yield1: "py_yield (history @ [(message, None)]) [] ?wd = (Inr (), ?we)"
    by (simp only: py_yield_def observe_apply)
  have facts_e: "clock ?we = clock w" "clock_reads ?we = Suc (clock_reads w)"
    "anthropic_stream ?we = anthropic_stream w" "environ ?we = environ w" "client ?we = client w"
    "events ?we = events w @ [SaveCall s ''user'' message (Some ?t1) b1, LoadCall s h,
        Emit (history @ [(message, None)]) []]"
    using kc kb by (simp_all add: beyond_store_def)
  have "client_available ?we"
    using avail facts_e(4,5) by (simp add: client_available_def getenv_truthy_def)
  then obtain ret where
    stream0: "stream_message ?api ?prompt ?we =
      (Inr (chunks_yielded (anthropic_stream ?we ?api ?prompt), ret),
       ?we\<lparr>client := True, events := events ?we @ [StreamCall ?api ?prompt]\<rparr>)"
    using stream_message_run[of ?we ?api ?prompt] by blast
  have chunks: "chunks_yielded (anthropic_stream ?we ?api ?prompt) = ?chunks"
    by (simp only: turn_chunks_def facts_e(3))
  let ?wf = "?we\<lparr>client := True, events := events ?we @ [StreamCall ?api ?prompt]\<rparr>"
  have stream: "stream_message ?api ?prompt ?we = (Inr (?chunks, ret), ?wf)"
    using stream0 unfolding chunks .
  let ?wg = "?wf\<lparr>events := events ?wf @
          map (\<lambda>n. Emit (history @ [(message, Some ([] @ concat (take (Suc n) ?chunks)))]) [])
            [0..<length ?chunks]\<rparr>"
  let ?final = "history @ [(message, if ?chunks = [] then None else Some ([] @ concat ?chunks))]"
  have loop: "chat_function_loop ?chunks [] (history @ [(message, None)]) ?wf =
     (Inr ([] @ concat ?chunks, ?final), ?wg)"
    by (rule chat_function_loop_run)
  have facts_g: "clock ?wg = clock w" "clock_reads ?wg = Suc (clock_reads w)"
    "events ?wg = events w @ [SaveCall s ''user'' message (Some ?t1) b1, LoadCall s h,
        Emit (history @ [(message, None)]) [], StreamCall ?api ?prompt]
      @ map (\<lambda>n. Emit (snapshot history message ?chunks (Suc n)) []) [0..<length ?chunks]"
    using kc kb by (simp_all add: beyond_store_def snapshot_def)
  let ?wh = "?wg\<lparr>clock_reads := Suc (clock_reads ?wg)\<rparr>"
  have now2: "datetime_now ?wg = (Inr ?t2, ?wh)"
    unfolding datetime_now_def using facts_g(1,2) by simp
  obtain b2 wi0 where
    save2: "save_message s ''assistant'' ([] @ concat ?chunks) (Some ?t2) ?wh =
       (Inr b2, wi0\<lparr>events := events ?wh @ [SaveCall s ''assistant'' ([] @ concat ?chunks) (Some ?t2) b2]\<rparr>)" and
    ki: "beyond_store wi0 = beyond_store ?wh" and
    b2: "b2 \<longrightarrow> chats wi0 = chats ?wh @ [new_row ?wh s ''assistant'' ([] @ concat ?chunks) ?t2]"
    using save_message_Some[of s "''assistant''" "[] @ concat ?chunks" ?t2 ?wh] by blast
  let ?wi = "wi0\<lparr>events := events ?wh @ [SaveCall s ''assistant'' ([] @ concat ?chunks) (Some ?t2) b2]\<rparr>"
  have tail4: "py_bind (save_message s ''assistant'' ([] @ concat ?chunks) (Some ?t2))
                 (\<lambda>_. py_return (?final, [])) ?wh = (Inr (?final, []), ?wi)"
    by (simp only: py_bind_Inr[where m="save_message s ''assistant'' ([] @ concat ?chunks) (Some ?t2)", OF save2]
          py_return_apply)
  have tail3: "py_bind datetime_now (\<lambda>now.
                 py_bind (save_message s ''assistant'' ([] @ concat ?chunks) (Some now))
                 (\<lambda>_. py_return (?final, []))) ?wg = (Inr (?final, []), ?wi)"
    by (simp only: py_bind_Inr[where m=datetime_now, OF now2] tail4)
  have tail2: "py_bind (chat_function_loop ?chunks [] (history @ [(message, None)]))
                 (\<lambda>(full_response, history2).
                    py_bind datetime_now (\<lambda>now.
                    py_bind (save_message s ''assistant'' full_response (Some now))
                    (\<lambda>_. py_return (history2, [])))) ?wf = (Inr (?final, []), ?wi)"
    by (simp only: py_bind_Inr[where m="chat_function_loop ?chunks [] (history @ [(message, None)])", OF loop]
          prod.case tail3)
  have tail1: "py_bind (stream_message ?api ?prompt)
                 (\<lambda>(chunks, _).
                    py_bind (chat_function_loop chunks [] (history @ [(message, None)]))
                    (\<lambda>(full_response, history2).
                       py_bind datetime_now (\<lambda>now.
                       py_bind (save_message s ''assistant'' full_response (Some now))
                       (\<lambda>_. py_return (history2, []))))) ?we = (Inr (?final, []), ?wi)"
    by (simp only: py_bind_Inr[where m="stream_message ?api ?prompt", OF stream] prod.case tail2)
  have tail0: "py_bind (py_yield (history @ [(message, None)]) []) (\<lambda>_.
                 py_bind (stream_message ?api ?prompt)
                 (\<lambda>(chunks, _).
                    py_bind (chat_function_loop chunks [] (history @ [(message, None)]))
                    (\<lambda>(full_response, history2).
                       py_bind datetime_now (\<lambda>now.
                       py_bind (save_message s ''assistant'' full_response (Some now))
                       (\<lambda>_. py_return (history2, [])))))) ?wd = (Inr (?final, []), ?wi)"
    by (simp only: py_bind_Inr[where m="py_yield (history @ [(message, None)]) []", OF yield1] tail1)
  have run: "chat_function message history s resume jd w = (Inr (?final, []), ?wi)"
    unfolding chat_function_def
    using nonblank
    apply (simp only: if_False Let_def)
    apply (subst py_bind_Inr[where m=datetime_now, OF now1])
    apply (subst py_bind_Inr[where m="save_message s ''user'' message (Some ?t1)", OF save1])
    apply (subst py_bind_Inr[where m="get_session_history s", OF load])
    apply (subst py_bind_assoc[symmetric])
    apply (subst py_bind_Inr[where m="py_bind (get_system_prompt resume jd default_template_path)
           (\<lambda>loaded. case loaded of None \<Rightarrow> render_prompt [] resume jd None
                                    | Some p \<Rightarrow> py_return p)", OF prompt])
    apply (fold turn_messages_def)
    apply (rule tail0)
    done
  have ev: "events ?wi = events w @ turn_trace w message history s resume jd b1 h b2"
    using facts_g(3) by (simp add: turn_trace_def)
  have "store_up ?wa = store_up w" by (rule store_up_cong) simp_all
  then have b1': "b1 \<longleftrightarrow> store_up w" using b1 by simp
  have "b2 \<longrightarrow> chats ?wi \<noteq> [] \<and>
       row_session_uuid (last (chats ?wi)) = s \<and>
       row_message_type (last (chats ?wi)) = ''assistant'' \<and>
       row_contents (last (chats ?wi)) = concat ?chunks \<and>
       row_timestamp (last (chats ?wi)) = ?t2"
    using b2 by (simp add: new_row_def)
  moreover have "?final = history @ [(message, if ?chunks = [] then None else Some (concat ?chunks))]"
    by simp
  moreover have "b1 \<longrightarrow> chats ?wb = chats w @ [new_row w s ''user'' message ?t1]"
    using rows1 by (simp add: new_row_def)
  moreover have "fst (get_session_history s ?wb) = Inr h" using load by simp
  moreover have "\<not> pool_available w \<longrightarrow> h = None"
  proof
    assume na: "\<not> pool_available w"
    then have "\<not> pool_available ?wa" by (simp add: pool_available_def getenv_truthy_def)
    then have "wb0 = ?wa" using same1 by simp
    then have "\<not> pool_available ?wb" using na by (simp add: pool_available_def getenv_truthy_def)
    then show "h = None" using hval by (simp add: store_up_def)
  qed
  ultimately show ?thesis using that[OF _ ev b1' _ _ hval] run by simp
qed

text \<open>
  Without a client and without the key to create one, which start-up excludes, the turn
  ends with the exception of \<^verbatim>\<open>initialize_client\<close> after the first snapshot.
\<close>

lemma chat_function_without_client:
  assumes nonblank: "strip message \<noteq> []" and unavail: "\<not> client_available w"
  obtains b1 h w' where
    "chat_function message history s resume jd w =
       (Inl (ValueError ''ANTHROPIC_API_KEY environment variable not set''), w')"
    "events w' = events w @
       [SaveCall s ''user'' message (Some (clock w (clock_reads w))) b1,
        LoadCall s h,
        Emit (history @ [(message, None)]) []]"
proof -
  let ?t1 = "clock w (clock_reads w)"
  let ?wa = "w\<lparr>clock_reads := Suc (clock_reads w)\<rparr>"
  have now1: "datetime_now w = (Inr ?t1, ?wa)" by (simp add: datetime_now_def)
  obtain b1 wb0 where
    save1: "save_message s ''user'' message (Some ?t1) ?wa =
       (Inr b1, wb0\<lparr>events := events ?wa @ [SaveCall s ''user'' message (Some ?t1) b1]\<rparr>)" and
    kb: "beyond_store wb0 = beyond_store ?wa"
    using save_message_Some[of s "''user''" message ?t1 ?wa] by blast
  let ?wb = "wb0\<lparr>events := events ?wa @ [SaveCall s ''user'' message (Some ?t1) b1]\<rparr>"
  obtain h wc0 where
    load: "get_session_history s ?wb = (Inr h, wc0\<lparr>events := events ?wb @ [LoadCall s h]\<rparr>)" and
    kc: "beyond_store wc0 = beyond_store ?wb"
    using get_session_history_run[of s ?wb] by blast
  let ?wc = "wc0\<lparr>events := events ?wb @ [LoadCall s h]\<rparr>"
  let ?prompt = "turn_prompt w resume jd"
  let ?api = "turn_messages h"
  have tp: "turn_prompt ?wc resume jd = ?prompt"
    using kc kb by (intro turn_prompt_cong) (simp_all add: beyond_store_def)
  obtain tc where
    prompt: "py_bind (get_system_prompt resume jd default_template_path)
           (\<lambda>loaded. case loaded of None \<Rightarrow> render_prompt [] resume jd None
                                    | Some p \<Rightarrow> py_return p) ?wc =
     (Inr ?prompt, ?wc\<lparr>template_cache := tc\<rparr>)"
    using system_prompt_run[of resume jd ?wc] unfolding tp by blast
  let ?wd = "?wc\<lparr>template_cache := tc\<rparr>"
  let ?we = "?wd\<lparr>events := events ?wd @ [Emit (history @ [(message, None)]) []]\<rparr>"
  let ?err = "ValueError ''ANTHROPIC_API_KEY environment variable not set''"
  have yield1: "py_yield (history @ [(message, None)]) [] ?wd = (Inr (), ?we)"
    by (simp only: py_yield_def observe_apply)
  have facts_e: "environ ?we = environ w" "client ?we = client w"
    "events ?we = events w @ [SaveCall s ''user'' message (Some ?t1) b1, LoadCall s h,
        Emit (history @ [(message, None)]) []]"
    using kc kb by (simp_all add: beyond_store_def)
  have "\<not> client_available ?we"
    using unavail facts_e(1,2) by (simp add: client_available_def getenv_truthy_def)
  then have stream: "stream_message ?api ?prompt ?we = (Inl ?err, ?we)"
    by (rule stream_message_unavailable)
  have tail1: "py_bind (stream_message ?api ?prompt)
                 (\<lambda>(chunks, _).
                    py_bind (chat_function_loop chunks [] (history @ [(message, None)]))
                    (\<lambda>(full_response, history2).
                       py_bind datetime_now (\<lambda>now.
                       py_bind (save_message s ''assistant'' full_response (Some now))
                       (\<lambda>_. py_return (history2, []))))) ?we = (Inl ?err, ?we)"
    by (simp only: py_bind_Inl[where m="stream_message ?api ?prompt", OF stream])
  have tail0: "py_bind (py_yield (history @ [(message, None)]) []) (\<lambda>_.
                 py_bind (stream_message ?api ?prompt)
                 (\<lambda>(chunks, _).
                    py_bind (chat_function_loop chunks [] (history @ [(message, None)]))
                    (\<lambda>(full_response, history2).
                       py_bind datetime_now (\<lambda>now.
                       py_bind (save_message s ''assistant'' full_response (Some now))
                       (\<lambda>_. py_return (history2, [])))))) ?wd = (Inl ?err, ?we)"
    by (simp only: py_bind_Inr[where m="py_yield (history @ [(message, None)]) []", OF yield1] tail1)
  have run: "chat_function message history s resume jd w = (Inl ?err, ?we)"
    unfolding chat_function_def
    using nonblank
    apply (simp only: if_False Let_def)
    apply (subst py_bind_Inr[where m=datetime_now, OF now1])
    apply (subst py_bind_Inr[where m="save_message s ''user'' message (Some ?t1)", OF save1])
    apply (subst py_bind_Inr[where m="get_session_history s", OF load])
    apply (subst py_bind_assoc[symmetric])
    apply (subst py_bind_Inr[where m="py_bind (get_system_prompt resume jd default_template_path)
           (\<lambda>loaded. case loaded of None \<Rightarrow> render_prompt [] resume jd None
                                    | Some p \<Rightarrow> py_return p)", OF prompt])
    apply (fold turn_messages_def)
    apply (rule tail0)
    done
  show ?thesis using that[OF run facts_e(3)] .
qed

subsection \<open>Blank messages and the example worlds\<close>

lemmas driver_defs = driver_call_def SimpleConnectionPool_def pool_getconn_def conn_cursor_def
  cursor_close_def pool_putconn_def cursor_execute_insert_def conn_commit_def
  cursor_execute_select_chats_def cursor_fetchall_def cursor_execute_select_document_def
  cursor_fetchone_def

lemma strip_eq_Nil_iff: "strip s = [] \<longleftrightarrow> (\<forall>c \<in> set s. isspace c)"
proof
  assume "strip s = []"
  then have all: "\<forall>c \<in> set (dropWhile isspace s). isspace c"
    by (simp add: strip_def dropWhile_eq_Nil_conv)
  have "dropWhile isspace s = []"
  proof (rule ccontr)
    assume ne: "dropWhile isspace s \<noteq> []"
    then have "\<not> isspace (hd (dropWhile isspace s))" by (rule hd_dropWhile)
    moreover have "hd (dropWhile isspace s) \<in> set (dropWhile isspace s)" using ne by simp
    ultimately show False using all by blast
  qed
  then show "\<forall>c \<in> set s. isspace c" by (simp add: dropWhile_eq_Nil_conv)
next
  assume "\<forall>c \<in> set s. isspace c"
  then have d: "dropWhile isspace s = []" by (simp add: dropWhile_eq_Nil_conv)
  show "strip s = []" unfolding strip_def d by simp
qed

lemma ex_store_up: "store_up example_world"
  by (simp add: store_up_def pool_available_def calls_clean_def example_world_def
      required_vars_def getenv_truthy_def)

lemma ex_client: "client_available example_world"
  by (simp add: client_available_def example_world_def getenv_truthy_def)

lemmas run_defs =
  chat_function_def strip_def isspace_def datetime_now_def uuid4_def
  save_message_def save_message_try_def get_session_history_def get_session_history_try_def
  get_document_by_name_def get_document_by_name_try_def get_connection_pool_def
  py_bind_def try_except_def try_finally_def py_apply driver_defs Let_def
  required_vars_def getenv_truthy_def getenv_default_def order_key_def
  get_system_prompt_def load_template_def open_read_def render_prompt_def
  pystache_render_call_def default_template_path_def py_yield_def stream_message_def
  initialize_client_def load_document_on_startup_def or_empty_def

lemmas world_defs =
  example_world_def failing_store_world_def failing_read_world_def failing_stream_world_def
  unreadable_template_world_def unconfigured_store_world_def

section \<open>The claims\<close>

text \<open>
  C4. A message that is empty or consists of whitespace only is ignored: the generator
  yields nothing and returns the transcript it was given, no store operation is called,
  no exception is raised, and the world is left exactly as it was.
\<close>

theorem blank_message_is_noop:
  assumes "\<forall>c \<in> set message. isspace c"
  shows "chat_function message history session_uuid resume jd w = (Inr (history, []), w)"
proof -
  have "strip message = []" using assms by (simp add: strip_eq_Nil_iff)
  then show ?thesis by (simp add: chat_function_def py_return_apply)
qed

theorem blank_message_is_noop_witness:
  "isspace (CHR 0x20) \<and> isspace (CHR 0x09) \<and> isspace (CHR 0x0A) \<and>
   chat_function [CHR 0x20, CHR 0x09, CHR 0x0A] [(''Hi'', Some ''Hello!'')] ''s1'' ''R1'' ''J1''
       example_world
     = (Inr ([(''Hi'', Some ''Hello!'')], []), example_world)"
proof -
  have blank: "\<forall>c \<in> set [CHR 0x20, CHR 0x09, CHR 0x0A]. isspace c"
    by (simp add: isspace_def)
  show ?thesis
    using blank blank_message_is_noop[OF blank, of "[(''Hi'', Some ''Hello!'')]" "''s1''" "''R1''"
        "''J1''" example_world]
    by simp
qed

text \<open>
  C5. Whatever rows the history holds, no message of role \<^verbatim>\<open>system\<close> is among the messages
  built for the model client: \<^verbatim>\<open>format_message_history\<close> keeps exactly the rows of type
  \<^verbatim>\<open>user\<close> and \<^verbatim>\<open>assistant\<close>, in order, with their type as role and their contents as
  content.
\<close>

theorem system_rows_never_reach_model:
  "(\<forall>m \<in> set (format_message_history db_messages). role m \<noteq> ''system'') \<and>
   format_message_history db_messages =
     map (\<lambda>msg. \<lparr>role = row_message_type msg, content = row_contents msg\<rparr>)
       (filter (\<lambda>msg. row_message_type msg = ''user'' \<or> row_message_type msg = ''assistant'')
          db_messages)"
proof -
  have eq: "format_message_history db_messages =
     map (\<lambda>msg. \<lparr>role = row_message_type msg, content = row_contents msg\<rparr>)
       (filter (\<lambda>msg. row_message_type msg = ''user'' \<or> row_message_type msg = ''assistant'')
          db_messages)"
    by (induction db_messages) (simp_all add: Let_def)
  show ?thesis unfolding eq by auto
qed

theorem system_rows_never_reach_model_witness:
  "format_message_history
     [\<lparr>row_id = 1, row_timestamp = 10, row_session_uuid = ''s1'', row_message_type = ''system'',
       row_contents = ''You are terse.'', row_created_at = 10\<rparr>,
      \<lparr>row_id = 2, row_timestamp = 11, row_session_uuid = ''s1'', row_message_type = ''user'',
       row_contents = ''Hello'', row_created_at = 11\<rparr>,
      \<lparr>row_id = 3, row_timestamp = 12, row_session_uuid = ''s1'', row_message_type = ''assistant'',
       row_contents = ''Hi'', row_created_at = 12\<rparr>]
    = [\<lparr>role = ''user'', content = ''Hello''\<rparr>, \<lparr>role = ''assistant'', content = ''Hi''\<rparr>]"
  using system_rows_never_reach_model[of
     "[\<lparr>row_id = 1, row_timestamp = 10, row_session_uuid = ''s1'', row_message_type = ''system'',
       row_contents = ''You are terse.'', row_created_at = 10\<rparr>,
      \<lparr>row_id = 2, row_timestamp = 11, row_session_uuid = ''s1'', row_message_type = ''user'',
       row_contents = ''Hello'', row_created_at = 11\<rparr>,
      \<lparr>row_id = 3, row_timestamp = 12, row_session_uuid = ''s1'', row_message_type = ''assistant'',
       row_contents = ''Hi'', row_created_at = 12\<rparr>]"]
  by simp


lemma failing_store_down: "\<not> store_up failing_store_world"
  by (simp add: store_up_def calls_clean_def failing_store_world_def example_world_def)




















lemma load_document_on_startup_run:
  assumes "app_initialized w" and "strip q \<noteq> []"
  shows "\<exists>w'. load_document_on_startup (Some q) w =
     (Inr (case (if store_up w then first_document (strip q) w else None) of
             None \<Rightarrow>
               (''**Error:** No document found with name '' @ [CHR 0x27] @ strip q @ [CHR 0x27],
                strip q, uuids w (uuid_draws w), False, [], [])
           | Some (resume, jd) \<Rightarrow>
               ([], strip q, uuids w (uuid_draws w), True, or_empty resume, or_empty jd)), w')"
proof -
  let ?w0 = "w\<lparr>uuid_draws := Suc (uuid_draws w)\<rparr>"
  obtain w1 where g: "get_document_by_name (strip q) ?w0 =
       (Inr (if store_up ?w0 then first_document (strip q) ?w0 else None), w1)"
    using get_document_by_name_run[of "strip q" ?w0] by blast
  have "store_up ?w0 = store_up w" by (rule store_up_cong) simp_all
  moreover have "first_document (strip q) ?w0 = first_document (strip q) w"
    by (simp add: first_document_def)
  ultimately have g': "get_document_by_name (strip q) ?w0 =
       (Inr (if store_up w then first_document (strip q) w else None), w1)"
    using g by simp
  show ?thesis
    using assms
    by (simp add: load_document_on_startup_def py_bind_def py_apply uuid4_def Let_def
          try_except_def g' split: option.splits prod.splits)
qed

text \<open>
  C10. \<^verbatim>\<open>get_document_by_name\<close> never raises: it returns the row found when the store
  serves the read without failure, and \<^verbatim>\<open>None\<close> both when no row has the name and when
  anything in the store fails. On page load (application initialised, a non-blank \<^verbatim>\<open>q\<close>)
  \<^verbatim>\<open>load_document_on_startup\<close> therefore answers either with the document and chat enabled,
  or with the message \<^verbatim>\<open>No document found\<close> and chat disabled; the answer of its
  \<^verbatim>\<open>except\<close> clause, \<^verbatim>\<open>Database error while retrieving document\<close>, is never given.
\<close>

theorem document_lookup_never_raises:
  "(\<exists>w'. get_document_by_name name w =
           (Inr (if store_up w then first_document name w else None), w')) \<and>
   (app_initialized w \<and> strip q \<noteq> [] \<longrightarrow>
     (\<exists>w'. load_document_on_startup (Some q) w =
        (Inr (case (if store_up w then first_document (strip q) w else None) of
                None \<Rightarrow>
                  (''**Error:** No document found with name '' @ [CHR 0x27] @ strip q @ [CHR 0x27],
                   strip q, uuids w (uuid_draws w), False, [], [])
              | Some (resume, jd) \<Rightarrow>
                  ([], strip q, uuids w (uuid_draws w), True, or_empty resume, or_empty jd)), w')) \<and>
     (\<forall>e w'. load_document_on_startup (Some q) w \<noteq>
        (Inr (''**Error:** Database error while retrieving document: '' @ str_exn e,
              strip q, uuids w (uuid_draws w), False, [], []), w')))"
proof (intro conjI impI)
  show "\<exists>w'. get_document_by_name name w =
           (Inr (if store_up w then first_document name w else None), w')"
    using get_document_by_name_run[of name w] by blast
next
  assume a: "app_initialized w \<and> strip q \<noteq> []"
  then show "\<exists>w'. load_document_on_startup (Some q) w =
        (Inr (case (if store_up w then first_document (strip q) w else None) of
                None \<Rightarrow>
                  (''**Error:** No document found with name '' @ [CHR 0x27] @ strip q @ [CHR 0x27],
                   strip q, uuids w (uuid_draws w), False, [], [])
              | Some (resume, jd) \<Rightarrow>
                  ([], strip q, uuids w (uuid_draws w), True, or_empty resume, or_empty jd)), w')"
    using load_document_on_startup_run[of w q] by blast
next
  assume a: "app_initialized w \<and> strip q \<noteq> []"
  obtain w1 where run: "load_document_on_startup (Some q) w =
        (Inr (case (if store_up w then first_document (strip q) w else None) of
                None \<Rightarrow>
                  (''**Error:** No document found with name '' @ [CHR 0x27] @ strip q @ [CHR 0x27],
                   strip q, uuids w (uuid_draws w), False, [], [])
              | Some (resume, jd) \<Rightarrow>
                  ([], strip q, uuids w (uuid_draws w), True, or_empty resume, or_empty jd)), w1)"
    using load_document_on_startup_run[of w q] a by blast
  show "\<forall>e w'. load_document_on_startup (Some q) w \<noteq>
        (Inr (''**Error:** Database error while retrieving document: '' @ str_exn e,
              strip q, uuids w (uuid_draws w), False, [], []), w')"
    unfolding run by (auto split: option.splits)
qed

theorem document_lookup_never_raises_witness:
  "(\<exists>w'. load_document_on_startup (Some '' acme-swe '') example_world =
           (Inr ([], ''acme-swe'', ''session-'', True, ''R1'', ''J1''), w')) \<and>
   (\<exists>w'. load_document_on_startup (Some ''nobody'') example_world =
           (Inr (''**Error:** No document found with name 'nobody'' @ [CHR 0x27],
                 ''nobody'', ''session-'', False, [], []), w')) \<and>
   (\<exists>w'. load_document_on_startup (Some ''acme-swe'') failing_store_world =
           (Inr (''**Error:** No document found with name 'acme-swe'' @ [CHR 0x27],
                 ''acme-swe'', ''session-'', False, [], []), w'))"
proof (intro conjI)
  have s1: "strip '' acme-swe '' = ''acme-swe''" by (simp add: strip_def isspace_def)
  have s2: "strip ''nobody'' = ''nobody''" by (simp add: strip_def isspace_def)
  have s3: "strip ''acme-swe'' = ''acme-swe''" by (simp add: strip_def isspace_def)
  have i: "app_initialized example_world" "app_initialized failing_store_world"
    by (simp_all add: world_defs)
  show "\<exists>w'. load_document_on_startup (Some '' acme-swe '') example_world =
           (Inr ([], ''acme-swe'', ''session-'', True, ''R1'', ''J1''), w')"
    using document_lookup_never_raises[of "''x''" example_world "'' acme-swe ''"] i ex_store_up
    by (simp add: s1 first_document_def or_empty_def example_world_def)
  show "\<exists>w'. load_document_on_startup (Some ''nobody'') example_world =
           (Inr (''**Error:** No document found with name 'nobody'' @ [CHR 0x27],
                 ''nobody'', ''session-'', False, [], []), w')"
    using document_lookup_never_raises[of "''x''" example_world "''nobody''"] i ex_store_up
    by (simp add: s2 first_document_def or_empty_def example_world_def)
  show "\<exists>w'. load_document_on_startup (Some ''acme-swe'') failing_store_world =
           (Inr (''**Error:** No document found with name 'acme-swe'' @ [CHR 0x27],
                 ''acme-swe'', ''session-'', False, [], []), w')"
    using document_lookup_never_raises[of "''x''" failing_store_world "''acme-swe''"] i
      failing_store_down
    by (simp add: s3 world_defs)
qed

text \<open>
  The prompt of a turn on the three paths. When pystache raises, the prompt is the
  hardcoded one, which embeds resume and job description verbatim. When the template
  cannot be loaded, the prompt is what pystache makes of the empty template. When the
  template is rendered, the prompt is what pystache makes of it, so whether it contains
  the resume depends on the template file and on pystache.
\<close>

lemma fallback_prompt_embeds:
  "\<exists>before between after. fallback_prompt resume jd = before @ resume @ between @ jd @ after"
  unfolding fallback_prompt_def by blast

lemma rendered_on_failure:
  "pystache_render w template (context_of w resume jd None) = Inl e \<Longrightarrow>
   rendered w template resume jd = fallback_prompt resume jd"
  by (simp add: rendered_def)

lemma turn_prompt_without_template:
  assumes "turn_template w = None"
    and "pystache_render w [] (context_of w resume jd None) = Inr []"
  shows "turn_prompt w resume jd = []"
  using assms by (simp add: turn_prompt_def rendered_def)

text \<open>
  C3, at the failing input. The template file cannot be read, so \<^verbatim>\<open>get_system_prompt\<close>
  returns \<^verbatim>\<open>None\<close> and \<^verbatim>\<open>chat_function\<close> calls \<^verbatim>\<open>render_prompt("", resume, jd)\<close>. Rendering
  the empty template raises nothing, so the hardcoded prompt of the \<^verbatim>\<open>except\<close> clause is
  not used: the stream is opened with the empty system prompt, which contains neither
  the resume \<^verbatim>\<open>R1\<close> nor the job description \<^verbatim>\<open>J1\<close>.
\<close>

theorem unreadable_template_gives_empty_prompt:
  "fst (chat_function ''Hello'' [] ''s1'' ''R1'' ''J1'' unreadable_template_world) =
     Inr ([(''Hello'', Some ''Good fit.'')], []) \<and>
   events (snd (chat_function ''Hello'' [] ''s1'' ''R1'' ''J1'' unreadable_template_world)) =
     [SaveCall ''s1'' ''user'' ''Hello'' (Some 100) True,
      LoadCall ''s1'' (Some [\<lparr>row_id = 1, row_timestamp = 100, row_session_uuid = ''s1'',
                             row_message_type = ''user'', row_contents = ''Hello'',
                             row_created_at = 501\<rparr>]),
      Emit [(''Hello'', None)] [],
      StreamCall [\<lparr>role = ''user'', content = ''Hello''\<rparr>] [],
      Emit [(''Hello'', Some ''Good '')] [],
      Emit [(''Hello'', Some ''Good fit.'')] [],
      SaveCall ''s1'' ''assistant'' ''Good fit.'' (Some 101) True]"
  by (simp add: run_defs world_defs)

text \<open>With the template readable, the same turn is given the rendered template.\<close>

lemma readable_template_prompt:
  "events (snd (chat_function ''Hello'' [] ''s1'' ''R1'' ''J1'' example_world)) ! 3 =
     StreamCall [\<lparr>role = ''user'', content = ''Hello''\<rparr>] ''You advise a hiring manager.''"
  by (simp add: run_defs world_defs)

lemma nonblank_strip: "\<not> (\<forall>c \<in> set message. isspace c) \<Longrightarrow> strip message \<noteq> []"
  by (simp add: strip_eq_Nil_iff)

lemma filter_is_save_turn_trace:
  "filter is_save (turn_trace w message history s resume jd b1 h b2) =
     [SaveCall s ''user'' message (Some (clock w (clock_reads w))) b1,
      SaveCall s ''assistant'' (concat (turn_chunks w h resume jd))
        (Some (clock w (Suc (clock_reads w)))) b2]"
  by (simp add: turn_trace_def filter_map comp_def)

lemma filter_is_emit_turn_trace:
  "filter is_emit (turn_trace w message history s resume jd b1 h b2) =
     Emit (history @ [(message, None)]) [] #
     map (\<lambda>n. Emit (snapshot history message (turn_chunks w h resume jd) (Suc n)) [])
       [0..<length (turn_chunks w h resume jd)]"
  by (simp add: turn_trace_def filter_map comp_def)

lemma nth_turn_trace:
  assumes "n < length (turn_chunks w h resume jd)"
  shows "turn_trace w message history s resume jd b1 h b2 ! (4 + n) =
     Emit (snapshot history message (turn_chunks w h resume jd) (Suc n)) []"
  using assms by (simp add: turn_trace_def nth_append)

text \<open>
  C1. A turn for a message that is not blank, run to its end with a model client that
  exists or can be created, produces exactly these events, in this order: one append of
  the message with role \<^verbatim>\<open>user\<close> and the first reading of the clock; the read of the
  history; the first snapshot (the message, no reply yet); the opening of the stream; one
  snapshot for each chunk; one append with role \<^verbatim>\<open>assistant\<close>, whose content is the
  concatenation of all chunks and whose timestamp is a second reading of the clock. These
  are the only two appends, and at least one snapshot is emitted. When the first append
  succeeded, a history that is read contains its row; when the second succeeded, its row
  is the last of the table.
\<close>

theorem turn_appends_user_streams_appends_assistant:
  assumes "\<not> (\<forall>c \<in> set message. isspace c)" and "client_available w"
  shows "\<exists>b1 h b2 w'.
     chat_function message history s resume jd w =
       (Inr (history @ [(message, if turn_chunks w h resume jd = [] then None
                                  else Some (concat (turn_chunks w h resume jd)))], []), w') \<and>
     events w' = events w @
       [SaveCall s ''user'' message (Some (clock w (clock_reads w))) b1,
        LoadCall s h,
        Emit (history @ [(message, None)]) [],
        StreamCall (turn_messages h) (turn_prompt w resume jd)]
       @ map (\<lambda>n. Emit (history @
                 [(message, Some (concat (take (Suc n) (turn_chunks w h resume jd))))]) [])
           [0..<length (turn_chunks w h resume jd)]
       @ [SaveCall s ''assistant'' (concat (turn_chunks w h resume jd))
            (Some (clock w (Suc (clock_reads w)))) b2] \<and>
     filter is_save (drop (length (events w)) (events w')) =
       [SaveCall s ''user'' message (Some (clock w (clock_reads w))) b1,
        SaveCall s ''assistant'' (concat (turn_chunks w h resume jd))
          (Some (clock w (Suc (clock_reads w)))) b2] \<and>
     filter is_emit (drop (length (events w)) (events w')) \<noteq> [] \<and>
     (b1 \<longrightarrow> (\<forall>ms. h = Some ms \<longrightarrow>
        new_row w s ''user'' message (clock w (clock_reads w)) \<in> set ms)) \<and>
     (b2 \<longrightarrow> chats w' \<noteq> [] \<and>
        row_session_uuid (last (chats w')) = s \<and>
        row_message_type (last (chats w')) = ''assistant'' \<and>
        row_contents (last (chats w')) = concat (turn_chunks w h resume jd) \<and>
        row_timestamp (last (chats w')) = clock w (Suc (clock_reads w)))"
proof -
  obtain b1 h b2 wl w' where
    run: "chat_function message history s resume jd w =
       (Inr (history @ [(message, if turn_chunks w h resume jd = [] then None
                                  else Some (concat (turn_chunks w h resume jd)))], []), w')" and
    ev: "events w' = events w @ turn_trace w message history s resume jd b1 h b2" and
    rows: "b1 \<longrightarrow> chats wl = chats w @ [new_row w s ''user'' message (clock w (clock_reads w))]" and
    hval: "h = (if store_up wl then Some (sort_key order_key (session_rows s wl)) else None)" and
    last: "b2 \<longrightarrow> chats w' \<noteq> [] \<and>
        row_session_uuid (last (chats w')) = s \<and>
        row_message_type (last (chats w')) = ''assistant'' \<and>
        row_contents (last (chats w')) = concat (turn_chunks w h resume jd) \<and>
        row_timestamp (last (chats w')) = clock w (Suc (clock_reads w))"
    by (rule chat_function_run[OF nonblank_strip[OF assms(1)] assms(2), of history s resume jd])
  have new: "drop (length (events w)) (events w') =
               turn_trace w message history s resume jd b1 h b2"
    by (simp add: ev)
  have seen: "b1 \<longrightarrow> (\<forall>ms. h = Some ms \<longrightarrow>
        new_row w s ''user'' message (clock w (clock_reads w)) \<in> set ms)"
  proof (intro impI allI)
    fix ms
    assume b1 and "h = Some ms"
    then have ms: "ms = sort_key order_key (session_rows s wl)"
      using hval by (simp split: if_splits)
    have "chats wl = chats w @ [new_row w s ''user'' message (clock w (clock_reads w))]"
      using rows \<open>b1\<close> by simp
    then have "new_row w s ''user'' message (clock w (clock_reads w)) \<in> set (session_rows s wl)"
      by (simp add: session_rows_def new_row_def)
    then show "new_row w s ''user'' message (clock w (clock_reads w)) \<in> set ms"
      by (simp add: ms)
  qed
  have emits: "filter is_emit (drop (length (events w)) (events w')) \<noteq> []"
    unfolding new filter_is_emit_turn_trace by simp
  show ?thesis
    apply (rule exI[of _ b1], rule exI[of _ h], rule exI[of _ b2], rule exI[of _ w'])
    apply (intro conjI)
         apply (rule run)
        apply (simp add: ev turn_trace_def snapshot_def)
       apply (simp only: new filter_is_save_turn_trace)
      apply (rule emits)
     apply (rule seen)
    apply (rule last)
    done
qed

theorem turn_appends_user_streams_appends_assistant_witness:
  "\<exists>w'. chat_function ''Hello'' [(''Hi'', Some ''Hello!'')] ''s1'' ''R1'' ''J1'' example_world =
       (Inr ([(''Hi'', Some ''Hello!''), (''Hello'', Some ''Good fit.'')], []), w') \<and>
     events w' =
       [SaveCall ''s1'' ''user'' ''Hello'' (Some 100) True,
        LoadCall ''s1'' (Some [\<lparr>row_id = 1, row_timestamp = 100, row_session_uuid = ''s1'',
                               row_message_type = ''user'', row_contents = ''Hello'',
                               row_created_at = 501\<rparr>]),
        Emit [(''Hi'', Some ''Hello!''), (''Hello'', None)] [],
        StreamCall [\<lparr>role = ''user'', content = ''Hello''\<rparr>] ''You advise a hiring manager.'',
        Emit [(''Hi'', Some ''Hello!''), (''Hello'', Some ''Good '')] [],
        Emit [(''Hi'', Some ''Hello!''), (''Hello'', Some ''Good fit.'')] [],
        SaveCall ''s1'' ''assistant'' ''Good fit.'' (Some 101) True] \<and>
     map row_contents (chats w') = [''Hello'', ''Good fit.'']"
proof -
  have nb: "\<not> (\<forall>c \<in> set ''Hello''. isspace c)" by (simp add: isspace_def)
  obtain b1 h b2 w' where
    run: "chat_function ''Hello'' [(''Hi'', Some ''Hello!'')] ''s1'' ''R1'' ''J1'' example_world =
       (Inr ([(''Hi'', Some ''Hello!'')] @ [(''Hello'',
           if turn_chunks example_world h ''R1'' ''J1'' = [] then None
           else Some (concat (turn_chunks example_world h ''R1'' ''J1'')))], []), w')"
    using turn_appends_user_streams_appends_assistant[OF nb ex_client,
        of "[(''Hi'', Some ''Hello!'')]" "''s1''" "''R1''" "''J1''"]
    by (elim exE conjE)
  have "fst (chat_function ''Hello'' [(''Hi'', Some ''Hello!'')] ''s1'' ''R1'' ''J1'' example_world) =
          Inr ([(''Hi'', Some ''Hello!''), (''Hello'', Some ''Good fit.'')], [])"
    by (simp add: run_defs world_defs)
  moreover have "events (snd (chat_function ''Hello'' [(''Hi'', Some ''Hello!'')] ''s1'' ''R1'' ''J1''
                   example_world)) =
       [SaveCall ''s1'' ''user'' ''Hello'' (Some 100) True,
        LoadCall ''s1'' (Some [\<lparr>row_id = 1, row_timestamp = 100, row_session_uuid = ''s1'',
                               row_message_type = ''user'', row_contents = ''Hello'',
                               row_created_at = 501\<rparr>]),
        Emit [(''Hi'', Some ''Hello!''), (''Hello'', None)] [],
        StreamCall [\<lparr>role = ''user'', content = ''Hello''\<rparr>] ''You advise a hiring manager.'',
        Emit [(''Hi'', Some ''Hello!''), (''Hello'', Some ''Good '')] [],
        Emit [(''Hi'', Some ''Hello!''), (''Hello'', Some ''Good fit.'')] [],
        SaveCall ''s1'' ''assistant'' ''Good fit.'' (Some 101) True]"
    by (simp add: run_defs world_defs)
  moreover have "map row_contents (chats (snd (chat_function ''Hello'' [(''Hi'', Some ''Hello!'')]
                   ''s1'' ''R1'' ''J1'' example_world))) = [''Hello'', ''Good fit.'']"
    by (simp add: run_defs world_defs)
  ultimately show ?thesis using run by (intro exI[of _ w']) simp
qed

lemma chunks_yielded_failure:
  "chunks_yielded (texts, Some e) = texts @ [''Error during streaming: '' @ str_exn e]"
  by (simp add: chunks_yielded_def)

text \<open>
  C2. When the stream of the remote model fails after the chunks \<open>texts\<close> with the error
  \<open>e\<close>, \<^verbatim>\<open>stream_message\<close> does not raise: it yields \<open>texts\<close> followed by exactly one more
  chunk, \<^verbatim>\<open>Error during streaming: \<close> and the text of \<open>e\<close>, and ends. In the turn
  the last event is then the append of the assistant message whose content is the
  concatenation of \<open>texts\<close> followed by that error chunk; when this append succeeds, a row
  with that content is the last of the table.
\<close>

theorem stream_error_becomes_last_chunk:
  assumes "\<not> (\<forall>c \<in> set message. isspace c)" and "client_available w"
  shows "(\<forall>messages system_prompt texts e.
            anthropic_stream w messages system_prompt = (texts, Some e) \<longrightarrow>
            (\<exists>ret w'. stream_message messages system_prompt w =
               (Inr (texts @ [''Error during streaming: '' @ str_exn e], ret), w'))) \<and>
         (\<exists>b1 h b2 w' final.
            chat_function message history s resume jd w = (Inr (final, []), w') \<and>
            events w' = events w @ turn_trace w message history s resume jd b1 h b2 \<and>
            (\<forall>texts e.
               anthropic_stream w (turn_messages h) (turn_prompt w resume jd) = (texts, Some e) \<longrightarrow>
               turn_chunks w h resume jd = texts @ [''Error during streaming: '' @ str_exn e] \<and>
               final = history @
                 [(message, Some (concat texts @ ''Error during streaming: '' @ str_exn e))] \<and>
               last (events w') =
                 SaveCall s ''assistant'' (concat texts @ ''Error during streaming: '' @ str_exn e)
                   (Some (clock w (Suc (clock_reads w)))) b2 \<and>
               (b2 \<longrightarrow> chats w' \<noteq> [] \<and>
                  row_message_type (last (chats w')) = ''assistant'' \<and>
                  row_contents (last (chats w')) =
                    concat texts @ ''Error during streaming: '' @ str_exn e)))"
proof (rule conjI)
  show "\<forall>messages system_prompt texts e.
            anthropic_stream w messages system_prompt = (texts, Some e) \<longrightarrow>
            (\<exists>ret w'. stream_message messages system_prompt w =
               (Inr (texts @ [''Error during streaming: '' @ str_exn e], ret), w'))"
  proof (intro allI impI)
    fix messages system_prompt texts e
    assume a: "anthropic_stream w messages system_prompt = (texts, Some e)"
    obtain ret where "stream_message messages system_prompt w =
       (Inr (chunks_yielded (anthropic_stream w messages system_prompt), ret),
        w\<lparr>client := True, events := events w @ [StreamCall messages system_prompt]\<rparr>)"
      using stream_message_run[OF assms(2), of messages system_prompt] by (elim exE)
    then show "\<exists>ret w'. stream_message messages system_prompt w =
               (Inr (texts @ [''Error during streaming: '' @ str_exn e], ret), w')"
      by (simp add: a chunks_yielded_failure)
  qed
next
  obtain b1 h b2 wl w' where
    run: "chat_function message history s resume jd w =
       (Inr (history @ [(message, if turn_chunks w h resume jd = [] then None
                                  else Some (concat (turn_chunks w h resume jd)))], []), w')" and
    ev: "events w' = events w @ turn_trace w message history s resume jd b1 h b2" and
    last: "b2 \<longrightarrow> chats w' \<noteq> [] \<and>
        row_session_uuid (last (chats w')) = s \<and>
        row_message_type (last (chats w')) = ''assistant'' \<and>
        row_contents (last (chats w')) = concat (turn_chunks w h resume jd) \<and>
        row_timestamp (last (chats w')) = clock w (Suc (clock_reads w))"
    by (rule chat_function_run[OF nonblank_strip[OF assms(1)] assms(2), of history s resume jd])
  let ?final = "history @ [(message, if turn_chunks w h resume jd = [] then None
                                  else Some (concat (turn_chunks w h resume jd)))]"
  have lastev: "last (events w') =
     SaveCall s ''assistant'' (concat (turn_chunks w h resume jd))
       (Some (clock w (Suc (clock_reads w)))) b2"
    unfolding ev by (simp add: turn_trace_def)
  have fail: "\<forall>texts e.
        anthropic_stream w (turn_messages h) (turn_prompt w resume jd) = (texts, Some e) \<longrightarrow>
        turn_chunks w h resume jd = texts @ [''Error during streaming: '' @ str_exn e] \<and>
        ?final = history @
          [(message, Some (concat texts @ ''Error during streaming: '' @ str_exn e))] \<and>
        last (events w') =
          SaveCall s ''assistant'' (concat texts @ ''Error during streaming: '' @ str_exn e)
            (Some (clock w (Suc (clock_reads w)))) b2 \<and>
        (b2 \<longrightarrow> chats w' \<noteq> [] \<and>
           row_message_type (last (chats w')) = ''assistant'' \<and>
           row_contents (last (chats w')) =
             concat texts @ ''Error during streaming: '' @ str_exn e)"
  proof (intro allI impI)
    fix texts e
    assume a: "anthropic_stream w (turn_messages h) (turn_prompt w resume jd) = (texts, Some e)"
    have c: "turn_chunks w h resume jd = texts @ [''Error during streaming: '' @ str_exn e]"
      by (simp add: turn_chunks_def a chunks_yielded_failure)
    show "turn_chunks w h resume jd = texts @ [''Error during streaming: '' @ str_exn e] \<and>
        ?final = history @
          [(message, Some (concat texts @ ''Error during streaming: '' @ str_exn e))] \<and>
        last (events w') =
          SaveCall s ''assistant'' (concat texts @ ''Error during streaming: '' @ str_exn e)
            (Some (clock w (Suc (clock_reads w)))) b2 \<and>
        (b2 \<longrightarrow> chats w' \<noteq> [] \<and>
           row_message_type (last (chats w')) = ''assistant'' \<and>
           row_contents (last (chats w')) =
             concat texts @ ''Error during streaming: '' @ str_exn e)"
      using last lastev unfolding c by simp
  qed
  show "\<exists>b1 h b2 w' final.
            chat_function message history s resume jd w = (Inr (final, []), w') \<and>
            events w' = events w @ turn_trace w message history s resume jd b1 h b2 \<and>
            (\<forall>texts e.
               anthropic_stream w (turn_messages h) (turn_prompt w resume jd) = (texts, Some e) \<longrightarrow>
               turn_chunks w h resume jd = texts @ [''Error during streaming: '' @ str_exn e] \<and>
               final = history @
                 [(message, Some (concat texts @ ''Error during streaming: '' @ str_exn e))] \<and>
               last (events w') =
                 SaveCall s ''assistant'' (concat texts @ ''Error during streaming: '' @ str_exn e)
                   (Some (clock w (Suc (clock_reads w)))) b2 \<and>
               (b2 \<longrightarrow> chats w' \<noteq> [] \<and>
                  row_message_type (last (chats w')) = ''assistant'' \<and>
                  row_contents (last (chats w')) =
                    concat texts @ ''Error during streaming: '' @ str_exn e))"
    apply (rule exI[of _ b1], rule exI[of _ h], rule exI[of _ b2], rule exI[of _ w'],
        rule exI[of _ ?final])
    apply (intro conjI)
      apply (rule run)
     apply (rule ev)
    apply (rule fail)
    done
qed

theorem stream_error_becomes_last_chunk_witness:
  "\<exists>ret v w'.
     stream_message [\<lparr>role = ''user'', content = ''Hello''\<rparr>] ''You advise a hiring manager.''
         failing_stream_world =
       (Inr ([''Good '', ''Error during streaming: Connection error.''], ret), v) \<and>
     chat_function ''Hello'' [] ''s1'' ''R1'' ''J1'' failing_stream_world =
       (Inr ([(''Hello'', Some ''Good Error during streaming: Connection error.'')], []), w') \<and>
     events w' =
       [SaveCall ''s1'' ''user'' ''Hello'' (Some 100) True,
        LoadCall ''s1'' (Some [\<lparr>row_id = 1, row_timestamp = 100, row_session_uuid = ''s1'',
                               row_message_type = ''user'', row_contents = ''Hello'',
                               row_created_at = 501\<rparr>]),
        Emit [(''Hello'', None)] [],
        StreamCall [\<lparr>role = ''user'', content = ''Hello''\<rparr>] ''You advise a hiring manager.'',
        Emit [(''Hello'', Some ''Good '')] [],
        Emit [(''Hello'', Some ''Good Error during streaming: Connection error.'')] [],
        SaveCall ''s1'' ''assistant'' ''Good Error during streaming: Connection error.''
          (Some 101) True] \<and>
     map row_contents (chats w') = [''Hello'', ''Good Error during streaming: Connection error.'']"
proof -
  have nb: "\<not> (\<forall>c \<in> set ''Hello''. isspace c)" by (simp add: isspace_def)
  have cl: "client_available failing_stream_world"
    by (simp add: client_available_def world_defs getenv_truthy_def)
  have fails: "anthropic_stream failing_stream_world
                 [\<lparr>role = ''user'', content = ''Hello''\<rparr>] ''You advise a hiring manager.'' =
               ([''Good ''], Some (Exception ''Connection error.''))"
    by (simp add: world_defs)
  note inst = stream_error_becomes_last_chunk[OF nb cl, of "[]" "''s1''" "''R1''" "''J1''"]
  from inst fails obtain ret v where
    s: "stream_message [\<lparr>role = ''user'', content = ''Hello''\<rparr>] ''You advise a hiring manager.''
         failing_stream_world =
       (Inr ([''Good ''] @ [''Error during streaming: '' @ str_exn (Exception ''Connection error.'')],
             ret), v)"
    by blast
  from inst obtain w' final where
    run: "chat_function ''Hello'' [] ''s1'' ''R1'' ''J1'' failing_stream_world = (Inr (final, []), w')"
    by (elim exE conjE)
  have "fst (chat_function ''Hello'' [] ''s1'' ''R1'' ''J1'' failing_stream_world) =
          Inr ([(''Hello'', Some ''Good Error during streaming: Connection error.'')], [])"
    by (simp add: run_defs world_defs)
  moreover have "events (snd (chat_function ''Hello'' [] ''s1'' ''R1'' ''J1'' failing_stream_world)) =
       [SaveCall ''s1'' ''user'' ''Hello'' (Some 100) True,
        LoadCall ''s1'' (Some [\<lparr>row_id = 1, row_timestamp = 100, row_session_uuid = ''s1'',
                               row_message_type = ''user'', row_contents = ''Hello'',
                               row_created_at = 501\<rparr>]),
        Emit [(''Hello'', None)] [],
        StreamCall [\<lparr>role = ''user'', content = ''Hello''\<rparr>] ''You advise a hiring manager.'',
        Emit [(''Hello'', Some ''Good '')] [],
        Emit [(''Hello'', Some ''Good Error during streaming: Connection error.'')] [],
        SaveCall ''s1'' ''assistant'' ''Good Error during streaming: Connection error.''
          (Some 101) True]"
    by (simp add: run_defs world_defs)
  moreover have "map row_contents (chats (snd (chat_function ''Hello'' [] ''s1'' ''R1'' ''J1''
                   failing_stream_world))) =
                 [''Hello'', ''Good Error during streaming: Connection error.'']"
    by (simp add: run_defs world_defs)
  ultimately show ?thesis using run s
    by (intro exI[of _ ret] exI[of _ v] exI[of _ w']) simp
qed

lemma length_turn_trace:
  "length (turn_trace w message history s resume jd b1 h b2) =
     length (turn_chunks w h resume jd) + 5"
  by (simp add: turn_trace_def)

text \<open>
  C7. The loop over the stream emits one snapshot for each chunk, before it takes the
  next: the turns before the last are as they were, and the reply slot of the last turn
  holds the concatenation of the chunks received so far. In a turn the events after the
  opening of the stream and before the final append are therefore exactly one snapshot
  for each chunk the streaming client yields, the \<open>n\<close>-th holding the first \<open>n\<close> chunks.
\<close>

theorem one_snapshot_per_chunk:
  assumes "\<not> (\<forall>c \<in> set message. isspace c)" and "client_available w"
  shows "(\<forall>chunks full slot v.
            chat_function_loop chunks full (history @ [(message, slot)]) v =
              (Inr (full @ concat chunks,
                    history @ [(message, if chunks = [] then slot
                                         else Some (full @ concat chunks))]),
               v\<lparr>events := events v @
                   map (\<lambda>n. Emit (history @
                           [(message, Some (full @ concat (take (Suc n) chunks)))]) [])
                     [0..<length chunks]\<rparr>)) \<and>
         (\<exists>h b2 w' final.
            chat_function message history s resume jd w = (Inr (final, []), w') \<and>
            events w' ! (length (events w) + 3) =
              StreamCall (turn_messages h) (turn_prompt w resume jd) \<and>
            length (events w') = length (events w) + length (turn_chunks w h resume jd) + 5 \<and>
            (\<forall>n < length (turn_chunks w h resume jd).
               events w' ! (length (events w) + 4 + n) =
                 Emit (history @
                   [(message, Some (concat (take (Suc n) (turn_chunks w h resume jd))))]) []) \<and>
            events w' ! (length (events w) + 4 + length (turn_chunks w h resume jd)) =
              SaveCall s ''assistant'' (concat (turn_chunks w h resume jd))
                (Some (clock w (Suc (clock_reads w)))) b2 \<and>
            filter is_emit (drop (length (events w)) (events w')) =
              Emit (history @ [(message, None)]) [] #
              map (\<lambda>n. Emit (history @
                      [(message, Some (concat (take (Suc n) (turn_chunks w h resume jd))))]) [])
                [0..<length (turn_chunks w h resume jd)])"
proof (rule conjI)
  show "\<forall>chunks full slot v.
            chat_function_loop chunks full (history @ [(message, slot)]) v =
              (Inr (full @ concat chunks,
                    history @ [(message, if chunks = [] then slot
                                         else Some (full @ concat chunks))]),
               v\<lparr>events := events v @
                   map (\<lambda>n. Emit (history @
                           [(message, Some (full @ concat (take (Suc n) chunks)))]) [])
                     [0..<length chunks]\<rparr>)"
    by (intro allI) (rule chat_function_loop_run)
next
  obtain b1 h b2 wl w' where
    run: "chat_function message history s resume jd w =
       (Inr (history @ [(message, if turn_chunks w h resume jd = [] then None
                                  else Some (concat (turn_chunks w h resume jd)))], []), w')" and
    ev: "events w' = events w @ turn_trace w message history s resume jd b1 h b2"
    by (rule chat_function_run[OF nonblank_strip[OF assms(1)] assms(2), of history s resume jd])
  let ?chunks = "turn_chunks w h resume jd"
  let ?trace = "turn_trace w message history s resume jd b1 h b2"
  have at: "events w' ! (length (events w) + k) = ?trace ! k" for k
    unfolding ev by simp
  have 1: "events w' ! (length (events w) + 3) =
              StreamCall (turn_messages h) (turn_prompt w resume jd)"
    unfolding at by (simp add: turn_trace_def)
  have 2: "length (events w') = length (events w) + length ?chunks + 5"
    unfolding ev by (simp add: length_turn_trace)
  have 3: "\<forall>n < length ?chunks.
               events w' ! (length (events w) + 4 + n) =
                 Emit (history @ [(message, Some (concat (take (Suc n) ?chunks)))]) []"
  proof (intro allI impI)
    fix n assume n: "n < length ?chunks"
    have "events w' ! (length (events w) + (4 + n)) = ?trace ! (4 + n)" by (rule at)
    then show "events w' ! (length (events w) + 4 + n) =
                 Emit (history @ [(message, Some (concat (take (Suc n) ?chunks)))]) []"
      using nth_turn_trace[OF n, of message history s b1 b2]
      by (simp add: snapshot_def add.assoc)
  qed
  have "events w' ! (length (events w) + (4 + length ?chunks)) = ?trace ! (4 + length ?chunks)"
    by (rule at)
  then have 4: "events w' ! (length (events w) + 4 + length ?chunks) =
              SaveCall s ''assistant'' (concat ?chunks) (Some (clock w (Suc (clock_reads w)))) b2"
    by (simp add: turn_trace_def nth_append add.assoc)
  have 5: "filter is_emit (drop (length (events w)) (events w')) =
              Emit (history @ [(message, None)]) [] #
              map (\<lambda>n. Emit (history @ [(message, Some (concat (take (Suc n) ?chunks)))]) [])
                [0..<length ?chunks]"
    unfolding ev by (simp add: filter_is_emit_turn_trace snapshot_def)
  show "\<exists>h b2 w' final.
            chat_function message history s resume jd w = (Inr (final, []), w') \<and>
            events w' ! (length (events w) + 3) =
              StreamCall (turn_messages h) (turn_prompt w resume jd) \<and>
            length (events w') = length (events w) + length (turn_chunks w h resume jd) + 5 \<and>
            (\<forall>n < length (turn_chunks w h resume jd).
               events w' ! (length (events w) + 4 + n) =
                 Emit (history @
                   [(message, Some (concat (take (Suc n) (turn_chunks w h resume jd))))]) []) \<and>
            events w' ! (length (events w) + 4 + length (turn_chunks w h resume jd)) =
              SaveCall s ''assistant'' (concat (turn_chunks w h resume jd))
                (Some (clock w (Suc (clock_reads w)))) b2 \<and>
            filter is_emit (drop (length (events w)) (events w')) =
              Emit (history @ [(message, None)]) [] #
              map (\<lambda>n. Emit (history @
                      [(message, Some (concat (take (Suc n) (turn_chunks w h resume jd))))]) [])
                [0..<length (turn_chunks w h resume jd)]"
    apply (rule exI[of _ h], rule exI[of _ b2], rule exI[of _ w'])
    apply (rule exI[of _ "history @ [(message, if ?chunks = [] then None
                                  else Some (concat ?chunks))]"])
    apply (intro conjI)
         apply (rule run)
        apply (rule 1)
       apply (rule 2)
      apply (rule 3)
     apply (rule 4)
    apply (rule 5)
    done
qed

theorem one_snapshot_per_chunk_witness:
  "\<exists>w'. chat_function ''Hello'' [(''Hi'', Some ''Hello!'')] ''s1'' ''R1'' ''J1'' example_world =
       (Inr ([(''Hi'', Some ''Hello!''), (''Hello'', Some ''Good fit.'')], []), w') \<and>
     length (events w') = 7 \<and>
     events w' ! 3 =
       StreamCall [\<lparr>role = ''user'', content = ''Hello''\<rparr>] ''You advise a hiring manager.'' \<and>
     events w' ! 4 = Emit [(''Hi'', Some ''Hello!''), (''Hello'', Some ''Good '')] [] \<and>
     events w' ! 5 = Emit [(''Hi'', Some ''Hello!''), (''Hello'', Some ''Good fit.'')] [] \<and>
     events w' ! 6 = SaveCall ''s1'' ''assistant'' ''Good fit.'' (Some 101) True"
proof -
  have nb: "\<not> (\<forall>c \<in> set ''Hello''. isspace c)" by (simp add: isspace_def)
  from one_snapshot_per_chunk[OF nb ex_client, of "[(''Hi'', Some ''Hello!'')]" "''s1''" "''R1''"
      "''J1''"]
  obtain w' final where
    run: "chat_function ''Hello'' [(''Hi'', Some ''Hello!'')] ''s1'' ''R1'' ''J1'' example_world =
            (Inr (final, []), w')"
    by (elim exE conjE)
  have "fst (chat_function ''Hello'' [(''Hi'', Some ''Hello!'')] ''s1'' ''R1'' ''J1'' example_world) =
          Inr ([(''Hi'', Some ''Hello!''), (''Hello'', Some ''Good fit.'')], [])"
    by (simp add: run_defs world_defs)
  moreover have "events (snd (chat_function ''Hello'' [(''Hi'', Some ''Hello!'')] ''s1'' ''R1'' ''J1''
                   example_world)) =
       [SaveCall ''s1'' ''user'' ''Hello'' (Some 100) True,
        LoadCall ''s1'' (Some [\<lparr>row_id = 1, row_timestamp = 100, row_session_uuid = ''s1'',
                               row_message_type = ''user'', row_contents = ''Hello'',
                               row_created_at = 501\<rparr>]),
        Emit [(''Hi'', Some ''Hello!''), (''Hello'', None)] [],
        StreamCall [\<lparr>role = ''user'', content = ''Hello''\<rparr>] ''You advise a hiring manager.'',
        Emit [(''Hi'', Some ''Hello!''), (''Hello'', Some ''Good '')] [],
        Emit [(''Hi'', Some ''Hello!''), (''Hello'', Some ''Good fit.'')] [],
        SaveCall ''s1'' ''assistant'' ''Good fit.'' (Some 101) True]"
    by (simp add: run_defs world_defs)
  ultimately show ?thesis using run by (intro exI[of _ w']) simp
qed

lemma turn_messages_None: "turn_messages None = turn_messages (Some [])"
  by (simp add: turn_messages_def)

text \<open>
  C9. When the read of the history returns \<^verbatim>\<open>None\<close> (as it does whenever no pool can be
  had), the turn goes on: the stream is opened with an empty list of messages, the same
  list and hence the same reply as for a history read successfully and found empty, the
  snapshots are emitted and the assistant message is appended.
\<close>

theorem failed_history_read_gives_empty_context:
  assumes "\<not> (\<forall>c \<in> set message. isspace c)" and "client_available w"
  shows "\<exists>b1 h b2 w' final.
     chat_function message history s resume jd w = (Inr (final, []), w') \<and>
     events w' = events w @ turn_trace w message history s resume jd b1 h b2 \<and>
     events w' ! (length (events w) + 1) = LoadCall s h \<and>
     (\<not> pool_available w \<longrightarrow> h = None) \<and>
     (h = None \<longrightarrow>
        events w' ! (length (events w) + 3) = StreamCall [] (turn_prompt w resume jd) \<and>
        turn_messages h = turn_messages (Some []) \<and>
        turn_chunks w h resume jd = turn_chunks w (Some []) resume jd \<and>
        last (events w') =
          SaveCall s ''assistant'' (concat (turn_chunks w (Some []) resume jd))
            (Some (clock w (Suc (clock_reads w)))) b2)"
proof -
  obtain b1 h b2 wl w' where
    run: "chat_function message history s resume jd w =
       (Inr (history @ [(message, if turn_chunks w h resume jd = [] then None
                                  else Some (concat (turn_chunks w h resume jd)))], []), w')" and
    ev: "events w' = events w @ turn_trace w message history s resume jd b1 h b2" and
    down: "\<not> pool_available w \<longrightarrow> h = None"
    by (rule chat_function_run[OF nonblank_strip[OF assms(1)] assms(2), of history s resume jd])
  have at: "events w' ! (length (events w) + k) =
              turn_trace w message history s resume jd b1 h b2 ! k" for k
    unfolding ev by simp
  have 1: "events w' ! (length (events w) + 1) = LoadCall s h"
    unfolding at by (simp add: turn_trace_def)
  have 3: "events w' ! (length (events w) + 3) =
             StreamCall (turn_messages h) (turn_prompt w resume jd)"
    unfolding at by (simp add: turn_trace_def)
  have l: "last (events w') =
     SaveCall s ''assistant'' (concat (turn_chunks w h resume jd))
       (Some (clock w (Suc (clock_reads w)))) b2"
    unfolding ev by (simp add: turn_trace_def)
  have none: "h = None \<longrightarrow>
        events w' ! (length (events w) + 3) = StreamCall [] (turn_prompt w resume jd) \<and>
        turn_messages h = turn_messages (Some []) \<and>
        turn_chunks w h resume jd = turn_chunks w (Some []) resume jd \<and>
        last (events w') =
          SaveCall s ''assistant'' (concat (turn_chunks w (Some []) resume jd))
            (Some (clock w (Suc (clock_reads w)))) b2"
  proof
    assume h: "h = None"
    have m: "turn_messages h = []" by (simp add: h turn_messages_def)
    have c: "turn_chunks w h resume jd = turn_chunks w (Some []) resume jd"
      by (simp add: turn_chunks_def h turn_messages_None)
    show "events w' ! (length (events w) + 3) = StreamCall [] (turn_prompt w resume jd) \<and>
        turn_messages h = turn_messages (Some []) \<and>
        turn_chunks w h resume jd = turn_chunks w (Some []) resume jd \<and>
        last (events w') =
          SaveCall s ''assistant'' (concat (turn_chunks w (Some []) resume jd))
            (Some (clock w (Suc (clock_reads w)))) b2"
      using 3 l c m by (simp add: h turn_messages_def)
  qed
  show ?thesis
    apply (rule exI[of _ b1], rule exI[of _ h], rule exI[of _ b2], rule exI[of _ w'])
    apply (rule exI[of _ "history @ [(message, if turn_chunks w h resume jd = [] then None
                                  else Some (concat (turn_chunks w h resume jd)))]"])
    apply (intro conjI)
        apply (rule run)
       apply (rule ev)
      apply (rule 1)
     apply (rule down)
    apply (rule none)
    done
qed

theorem failed_history_read_gives_empty_context_witness:
  "(\<exists>b1 b2 w'.
      chat_function ''Hello'' [] ''s1'' ''R1'' ''J1'' unconfigured_store_world =
        (Inr ([(''Hello'', Some ''Good fit.'')], []), w') \<and>
      events w' =
        [SaveCall ''s1'' ''user'' ''Hello'' (Some 100) b1,
         LoadCall ''s1'' None,
         Emit [(''Hello'', None)] [],
         StreamCall [] ''You advise a hiring manager.'',
         Emit [(''Hello'', Some ''Good '')] [],
         Emit [(''Hello'', Some ''Good fit.'')] [],
         SaveCall ''s1'' ''assistant'' ''Good fit.'' (Some 101) b2]) \<and>
   events (snd (chat_function ''Hello'' [] ''s1'' ''R1'' ''J1'' failing_read_world)) =
        [SaveCall ''s1'' ''user'' ''Hello'' (Some 100) True,
         LoadCall ''s1'' None,
         Emit [(''Hello'', None)] [],
         StreamCall [] ''You advise a hiring manager.'',
         Emit [(''Hello'', Some ''Good '')] [],
         Emit [(''Hello'', Some ''Good fit.'')] [],
         SaveCall ''s1'' ''assistant'' ''Good fit.'' (Some 101) True]"
proof
  have nb: "\<not> (\<forall>c \<in> set ''Hello''. isspace c)" by (simp add: isspace_def)
  have cl: "client_available unconfigured_store_world"
    by (simp add: client_available_def world_defs getenv_truthy_def)
  have np: "\<not> pool_available unconfigured_store_world"
    by (simp add: pool_available_def world_defs getenv_truthy_def required_vars_def)
  have p: "turn_prompt unconfigured_store_world ''R1'' ''J1'' = ''You advise a hiring manager.''"
    by (simp add: turn_prompt_def rendered_def turn_template_def world_defs
        default_template_path_def)
  have c: "turn_chunks unconfigured_store_world h ''R1'' ''J1'' = [''Good '', ''fit.'']" for h
    by (simp add: turn_chunks_def chunks_yielded_def world_defs)
  have w0: "events unconfigured_store_world = []" "clock_reads unconfigured_store_world = 0"
    "clock unconfigured_store_world n = 100 + int n" for n
    by (simp_all add: world_defs)
  from failed_history_read_gives_empty_context[OF nb cl, of "[]" "''s1''" "''R1''" "''J1''"] np
  obtain b1 h b2 w' final where
    run: "chat_function ''Hello'' [] ''s1'' ''R1'' ''J1'' unconfigured_store_world =
            (Inr (final, []), w')" and
    ev: "events w' = events unconfigured_store_world @
           turn_trace unconfigured_store_world ''Hello'' [] ''s1'' ''R1'' ''J1'' b1 h b2" and
    h: "h = None"
    by (elim exE conjE) simp
  have "fst (chat_function ''Hello'' [] ''s1'' ''R1'' ''J1'' unconfigured_store_world) =
          Inr ([(''Hello'', Some ''Good fit.'')], [])"
    by (simp add: run_defs world_defs)
  then have f: "final = [(''Hello'', Some ''Good fit.'')]" using run by simp
  have "events w' =
        [SaveCall ''s1'' ''user'' ''Hello'' (Some 100) b1,
         LoadCall ''s1'' None,
         Emit [(''Hello'', None)] [],
         StreamCall [] ''You advise a hiring manager.'',
         Emit [(''Hello'', Some ''Good '')] [],
         Emit [(''Hello'', Some ''Good fit.'')] [],
         SaveCall ''s1'' ''assistant'' ''Good fit.'' (Some 101) b2]"
    unfolding ev h
    by (simp add: turn_trace_def p c w0 turn_messages_def snapshot_def upt_rec[of 0] upt_rec[of 1])
  then show "\<exists>b1 b2 w'.
      chat_function ''Hello'' [] ''s1'' ''R1'' ''J1'' unconfigured_store_world =
        (Inr ([(''Hello'', Some ''Good fit.'')], []), w') \<and>
      events w' =
        [SaveCall ''s1'' ''user'' ''Hello'' (Some 100) b1,
         LoadCall ''s1'' None,
         Emit [(''Hello'', None)] [],
         StreamCall [] ''You advise a hiring manager.'',
         Emit [(''Hello'', Some ''Good '')] [],
         Emit [(''Hello'', Some ''Good fit.'')] [],
         SaveCall ''s1'' ''assistant'' ''Good fit.'' (Some 101) b2]"
    using run f by (intro exI[of _ b1] exI[of _ b2] exI[of _ w']) simp
next
  show "events (snd (chat_function ''Hello'' [] ''s1'' ''R1'' ''J1'' failing_read_world)) =
        [SaveCall ''s1'' ''user'' ''Hello'' (Some 100) True,
         LoadCall ''s1'' None,
         Emit [(''Hello'', None)] [],
         StreamCall [] ''You advise a hiring manager.'',
         Emit [(''Hello'', Some ''Good '')] [],
         Emit [(''Hello'', Some ''Good fit.'')] [],
         SaveCall ''s1'' ''assistant'' ''Good fit.'' (Some 101) True]"
    by (simp add: run_defs world_defs)
qed

end
